theory Spec2Isabelle
  imports Main "HOL-Library.Sublist"
begin

section \<open>String primitives of the host language\<close>

text \<open>
  Strings are lists of code units; only the Latin-1 range is represented. The helpers
  below follow the JavaScript built-ins that the client calls: \<open>toLowerCase\<close>,
  \<open>toUpperCase\<close>, \<open>trim\<close>, \<open>startsWith\<close>, \<open>includes\<close>, \<open>split\<close>, \<open>join\<close>
  and number-to-string conversion in template literals. Case conversion maps the
  letters A to Z and a to z and leaves every other code unit alone: the client only
  compares converted text with ASCII literals, which no other Latin-1 letter can reach.
\<close>

definition lower_letters :: string where
  "lower_letters = ''abcdefghijklmnopqrstuvwxyz''"

definition upper_letters :: string where
  "upper_letters = ''ABCDEFGHIJKLMNOPQRSTUVWXYZ''"

definition toLowerCase_char :: "char \<Rightarrow> char" where
  "toLowerCase_char c =
     (case map_of (zip upper_letters lower_letters) c of Some l \<Rightarrow> l | None \<Rightarrow> c)"

definition toLowerCase :: "string \<Rightarrow> string" where
  "toLowerCase s = map toLowerCase_char s"

definition toUpperCase_char :: "char \<Rightarrow> char" where
  "toUpperCase_char c =
     (case map_of (zip lower_letters upper_letters) c of Some u \<Rightarrow> u | None \<Rightarrow> c)"

definition toUpperCase :: "string \<Rightarrow> string" where
  "toUpperCase s = map toUpperCase_char s"

definition is_space :: "char \<Rightarrow> bool" where
  "is_space c = ((of_char c :: nat) \<in> {9, 10, 11, 12, 13, 32, 160})"

definition trim :: "string \<Rightarrow> string" where
  "trim s = rev (dropWhile is_space (rev (dropWhile is_space s)))"

definition startsWith :: "string \<Rightarrow> string \<Rightarrow> bool" where
  "startsWith s p = (take (length p) s = p)"

fun includes_str :: "string \<Rightarrow> string \<Rightarrow> bool" where
  "includes_str [] p = (p = [])"
| "includes_str (c # cs) p = (startsWith (c # cs) p \<or> includes_str cs p)"

fun split_on :: "char \<Rightarrow> string \<Rightarrow> string list" where
  "split_on sep [] = [[]]"
| "split_on sep (c # cs) =
     (if c = sep then [] # split_on sep cs
      else (case split_on sep cs of
              [] \<Rightarrow> [[c]]
            | seg # segs \<Rightarrow> (c # seg) # segs))"

fun join :: "string \<Rightarrow> string list \<Rightarrow> string" where
  "join sep [] = []"
| "join sep [s] = s"
| "join sep (s # t # ss) = s @ sep @ join sep (t # ss)"

definition digit_char :: "nat \<Rightarrow> char" where
  "digit_char d = ''0123456789'' ! d"

fun string_of_nat :: "nat \<Rightarrow> string" where
  "string_of_nat n =
     (if n < 10 then [digit_char n]
      else string_of_nat (n div 10) @ [digit_char (n mod 10)])"

declare string_of_nat.simps [simp del]

definition string_of_int :: "int \<Rightarrow> string" where
  "string_of_int i =
     (if i < 0 then CHR ''-'' # string_of_nat (nat (- i)) else string_of_nat (nat i))"

section \<open>Chat view: messages, risk tier and summary (pages/Chat.tsx)\<close>

datatype role = User | Assistant

fun role_str :: "role \<Rightarrow> string" where
  "role_str User = ''user''"
| "role_str Assistant = ''assistant''"

text \<open>\<open>interface Message\<close>; the optional \<open>isReport\<close> is \<open>None\<close> when the field is absent.\<close>

record Message =
  m_id :: string
  m_role :: role
  m_content :: string
  m_timestamp :: string
  isReport :: "bool option"

text \<open>
  \<open>deduplicateMessages\<close>: a filter that threads a \<open>Map\<close> of the keys seen so far.
  The key is the template literal \<open>role::content.slice(0, 100)\<close>.
\<close>

definition dedup_key :: "Message \<Rightarrow> string" where
  "dedup_key msg = role_str (m_role msg) @ ''::'' @ take 100 (m_content msg)"

fun dedup_filter :: "(string \<rightharpoonup> bool) \<Rightarrow> Message list \<Rightarrow> Message list" where
  "dedup_filter seen [] = []"
| "dedup_filter seen (msg # msgs) =
     (let key = dedup_key msg
      in if seen key \<noteq> None then dedup_filter seen msgs
         else msg # dedup_filter (seen(key \<mapsto> True)) msgs)"

definition deduplicateMessages :: "Message list \<Rightarrow> Message list" where
  "deduplicateMessages messages = dedup_filter Map.empty messages"

text \<open>
  The fields of \<open>DocumentDetails\<close> read by the chat view. The glossary fixes the risk
  score as an integer; the counts are integers as well.
\<close>

record DocumentDetails =
  file_name :: string
  risk_score :: int
  risky_chunks :: int
  total_chunks :: int

definition riskLevel :: "int \<Rightarrow> string" where
  "riskLevel score =
     (if score > 70 then ''high'' else if score \<ge> 40 then ''medium'' else ''low'')"

definition summary_marker :: string where
  "summary_marker = ''I'' @ [CHR 0x27] @ ''ve analyzed your contract''"

definition summary_text :: "DocumentDetails \<Rightarrow> string" where
  "summary_text details =
     summary_marker @ '' '' @ [CHR 0x22] @ file_name details @ [CHR 0x22]
     @ '' and found '' @ string_of_int (risky_chunks details)
     @ '' risky clauses out of '' @ string_of_int (total_chunks details)
     @ '' sections. Overall risk score: '' @ string_of_int (risk_score details)
     @ ''%. This looks like a **'' @ toUpperCase (riskLevel (risk_score details))
     @ ''** risk agreement. Ask me anything about specific clauses, negotiation levers, or implications.''"

section \<open>Dashboard statistics (lib/api/stats.ts)\<close>

text \<open>
  The fields of \<open>DocumentSummary\<close> read by \<open>getDashboardStats\<close>; \<open>ds_risk_score\<close> is
  \<open>None\<close> when the service sends no score (the code reads it through \<open>?? 0\<close>).
\<close>

record DocumentSummary =
  ds_status :: string
  ds_risk_score :: "int option"

record DashboardStats =
  totalDocuments :: nat
  highRiskCount :: nat
  safeCount :: nat
  analyzingCount :: nat
  averageRiskPercentage :: int
  averageSafePercentage :: int

definition score_or_zero :: "DocumentSummary \<Rightarrow> int" where
  "score_or_zero d = (case ds_risk_score d of None \<Rightarrow> 0 | Some s \<Rightarrow> s)"

text \<open>\<open>Math.round\<close> of a quotient of integers: the nearest integer, halves upwards.\<close>

definition round_div :: "int \<Rightarrow> int \<Rightarrow> int" where
  "round_div s n = (2 * s + n) div (2 * n)"

definition getDashboardStats :: "DocumentSummary list \<Rightarrow> DashboardStats" where
  "getDashboardStats docs =
     (let completedDocs = filter (\<lambda>d. ds_status d = ''completed'') docs;
          totalRiskScore = sum_list (map score_or_zero completedDocs);
          totalSafeScore = sum_list (map (\<lambda>d. 100 - score_or_zero d) completedDocs);
          n = int (length completedDocs)
      in \<lparr> totalDocuments = length docs,
           highRiskCount = length (filter (\<lambda>d. score_or_zero d > 70) completedDocs),
           safeCount = length (filter (\<lambda>d. score_or_zero d < 40) completedDocs),
           analyzingCount = length (filter (\<lambda>d. ds_status d \<noteq> ''completed'') docs),
           averageRiskPercentage = (if n > 0 then round_div totalRiskScore n else 0),
           averageSafePercentage = (if n > 0 then round_div totalSafeScore n else 0) \<rparr>)"

section \<open>Document existence check (lib/api/legalBackend.ts)\<close>

text \<open>
  An HTTP response as \<open>handleResponse\<close> and \<open>checkDocumentExists\<close> read it: the \<open>ok\<close>
  flag, the status code and the outcome of \<open>response.json()\<close>, which is a syntax error,
  the JSON value \<open>null\<close>, or an object of which only the fields read are kept (a field
  is \<open>None\<close> when absent, null or of another type).
\<close>

record json_body =
  b_exists :: "bool option"
  b_error :: "string option"
  b_message :: "string option"

datatype parsed = BadJson | JsonNull | JsonData json_body

record response =
  r_ok :: bool
  r_status :: nat
  r_json :: parsed

datatype fetch_outcome = NetworkError string | Responded response

text \<open>\<open>handleResponse\<close>: \<open>Inl message\<close> is the thrown \<open>Error(message)\<close>.\<close>

definition handleResponse :: "response \<Rightarrow> string + json_body option" where
  "handleResponse r =
     (if \<not> r_ok r then
        Inl (case r_json r of
               JsonData d \<Rightarrow>
                 (case b_error d of
                    Some e \<Rightarrow> e
                  | None \<Rightarrow>
                      (case b_message d of
                         Some m \<Rightarrow> m
                       | None \<Rightarrow> ''Request failed with status '' @ string_of_nat (r_status r)))
             | _ \<Rightarrow> ''Request failed with status '' @ string_of_nat (r_status r))
      else (case r_json r of
              BadJson \<Rightarrow> Inl ''SyntaxError''
            | JsonNull \<Rightarrow> Inr None
            | JsonData d \<Rightarrow> Inr (Some d)))"

text \<open>
  \<open>checkDocumentExists\<close>: the whole body runs inside \<open>try\<close>; reading \<open>exists\<close> of
  \<open>null\<close> raises a \<open>TypeError\<close>, which the \<open>catch\<close> turns into \<open>false\<close> like every
  other error. The result type keeps a left summand for an exception leaving the function.
\<close>

definition checkDocumentExists :: "fetch_outcome \<Rightarrow> string + bool" where
  "checkDocumentExists outcome =
     (case outcome of
        NetworkError e \<Rightarrow> Inr False
      | Responded r \<Rightarrow>
          (case handleResponse r of
             Inl e \<Rightarrow> Inr False
           | Inr None \<Rightarrow> Inr False
           | Inr (Some d) \<Rightarrow> Inr (case b_exists d of None \<Rightarrow> False | Some b \<Rightarrow> b)))"

section \<open>Upload page: tasks, validation and enqueueing (UploadDocument)\<close>

text \<open>The browser's \<open>File\<close>, as far as the page reads it: name and size in bytes.\<close>

record File =
  f_name :: string
  f_size :: nat

datatype job_state = JobPending | JobProcessing | JobCompleted | JobFailed

text \<open>\<open>JobResult\<close>: of its fields the upload page reads only \<open>document_id\<close>.\<close>

record JobResult =
  document_id :: string

text \<open>
  \<open>JobStatusResponse\<close>. The page reads \<open>progress\<close> through \<open>??\<close>, so a missing
  value is represented (\<open>None\<close>); \<open>result\<close> and \<open>error\<close> are nullable in the source.
\<close>

record JobStatusResponse =
  job_id :: string
  js_status :: job_state
  js_progress :: "nat option"
  js_stage :: string
  js_result :: "JobResult option"
  js_error :: "string option"

datatype task_status = Pending | Uploading | Processing | Complete | Failed

text \<open>\<open>interface UploadFile\<close>; status \<open>Failed\<close> is the source's \<open>"error"\<close>.\<close>

record UploadFile =
  uf_id :: string
  uf_file :: File
  uf_progress :: nat
  uf_status :: task_status
  uf_error :: "string option"
  jobId :: "string option"
  jobStatus :: "JobStatusResponse option"

definition SUPPORTED_FORMATS :: "string list" where
  "SUPPORTED_FORMATS = [''.pdf'']"

definition MAX_FILE_SIZE :: nat where
  "MAX_FILE_SIZE = 20 * 1024 * 1024"

text \<open>
  \<open>validateFile\<close>: the extension is the last segment of the name split at dots (the
  whole name when it has no dot), lower-cased, behind a dot. \<open>split\<close> never returns an
  empty array, so \<open>pop\<close> always yields a segment.
\<close>

definition file_ext :: "File \<Rightarrow> string" where
  "file_ext file = ''.'' @ toLowerCase (last (split_on CHR ''.'' (f_name file)))"

definition validateFile :: "File \<Rightarrow> string option" where
  "validateFile file =
     (if file_ext file \<notin> set SUPPORTED_FORMATS then
        Some (''Unsupported format. Please use '' @ join '', '' SUPPORTED_FORMATS)
      else if f_size file > MAX_FILE_SIZE then
        Some ''File too large. Maximum size is 20MB''
      else None)"

text \<open>
  \<open>addFiles\<close>. \<open>Date.now()\<close> is read once per file inside the \<open>map\<close> callback;
  \<open>clock i\<close> is the reading (in milliseconds) taken for the file at position \<open>i\<close>.
  An error string returned by \<open>validateFile\<close> is never empty, so it is truthy.
\<close>

definition new_task :: "nat \<Rightarrow> File \<Rightarrow> UploadFile" where
  "new_task now file =
     (let error = validateFile file
      in \<lparr> uf_id = string_of_nat now @ ''-'' @ f_name file,
           uf_file = file,
           uf_progress = 0,
           uf_status = (if error \<noteq> None then Failed else Pending),
           uf_error = error,
           jobId = None,
           jobStatus = None \<rparr>)"

definition addFiles :: "(nat \<Rightarrow> nat) \<Rightarrow> File list \<Rightarrow> UploadFile list \<Rightarrow> UploadFile list" where
  "addFiles clock newFiles prev =
     prev @ map (\<lambda>(i, file). new_task (clock i) file) (enumerate 0 newFiles)"

section \<open>Upload page: the poll loop\<close>

record toast =
  title :: string
  description :: string
  destructive :: bool

text \<open>
  One instance of the polling effect together with the component state it touches.
  \<open>files\<close> and \<open>activeJobId\<close> are React state; \<open>toasts\<close> and \<open>navigations\<close> log the
  calls of \<open>toast\<close> and \<open>navigate\<close>; \<open>requests\<close> logs the calls of \<open>getJobStatus\<close>
  (the job id asked for). \<open>job\<close> is the \<open>activeJobId\<close> captured by the effect's
  closure and \<open>isCancelled\<close> its flag. The event loop is represented by \<open>in_flight\<close>
  (a status request awaits its answer) and \<open>timer\<close> (the delay of a pending
  \<open>setTimeout(poll, delay)\<close>); the effect never keeps the timer's handle.
\<close>

record poll_state =
  files :: "UploadFile list"
  activeJobId :: "string option"
  toasts :: "toast list"
  navigations :: "string list"
  requests :: "string list"
  job :: string
  isCancelled :: bool
  in_flight :: bool
  timer :: "nat option"

text \<open>\<open>a || b\<close> on a nullable string: the empty string is falsy as well.\<close>

definition or_else :: "string option \<Rightarrow> string \<Rightarrow> string" where
  "or_else s d = (case s of None \<Rightarrow> d | Some v \<Rightarrow> if v = [] then d else v)"

definition mirror_status :: "job_state \<Rightarrow> task_status" where
  "mirror_status s =
     (if s = JobCompleted then Complete else if s = JobFailed then Failed else Processing)"

definition mirror_task :: "string \<Rightarrow> JobStatusResponse \<Rightarrow> UploadFile \<Rightarrow> UploadFile" where
  "mirror_task j status f =
     (if jobId f = Some j
      then f\<lparr> uf_progress := (case js_progress status of Some p \<Rightarrow> p | None \<Rightarrow> uf_progress f),
              uf_status := mirror_status (js_status status),
              jobStatus := Some status \<rparr>
      else f)"

text \<open>\<open>status.result?.document_id\<close> when truthy.\<close>

definition result_document_id :: "JobStatusResponse \<Rightarrow> string option" where
  "result_document_id status =
     (case js_result status of
        None \<Rightarrow> None
      | Some r \<Rightarrow> if document_id r = [] then None else Some (document_id r))"

text \<open>\<open>poll\<close> up to its \<open>await\<close>: the status request is issued.\<close>

definition poll_start :: "poll_state \<Rightarrow> poll_state" where
  "poll_start st = st\<lparr> requests := requests st @ [job st], in_flight := True \<rparr>"

text \<open>\<open>poll\<close> after the \<open>await\<close>, when \<open>getJobStatus\<close> resolved with \<open>status\<close>.\<close>

definition poll_fulfilled :: "JobStatusResponse \<Rightarrow> poll_state \<Rightarrow> poll_state" where
  "poll_fulfilled status st0 =
     (let st = st0\<lparr> in_flight := False \<rparr>
      in if isCancelled st then st
         else
           (let st1 = st\<lparr> files := map (mirror_task (job st) status) (files st) \<rparr>
            in case (if js_status status = JobCompleted then result_document_id status
                     else None) of
                 Some doc \<Rightarrow>
                   st1\<lparr> toasts := toasts st1 @
                            [\<lparr> title = ''Analysis complete'',
                               description = ''Opening interactive analysis and chat.'',
                               destructive = False \<rparr>],
                        activeJobId := None,
                        navigations := navigations st1 @ [''/chat/'' @ doc] \<rparr>
               | None \<Rightarrow>
                   if js_status status = JobFailed then
                     st1\<lparr> toasts := toasts st1 @
                              [\<lparr> title = ''Analysis failed'',
                                 description = or_else (js_error status)
                                                 ''An error occurred during analysis.'',
                                 destructive = True \<rparr>],
                          activeJobId := None \<rparr>
                   else st1\<lparr> timer := Some 2000 \<rparr>))"

text \<open>
  \<open>poll\<close> after the \<open>await\<close>, when \<open>getJobStatus\<close> rejected; the argument is
  \<open>error?.message\<close>.
\<close>

definition poll_rejected :: "string option \<Rightarrow> poll_state \<Rightarrow> poll_state" where
  "poll_rejected message st0 =
     (let st = st0\<lparr> in_flight := False \<rparr>
      in if isCancelled st then st
         else st\<lparr> toasts := toasts st @
                      [\<lparr> title = ''Error'',
                         description = or_else message
                                         ''Failed to fetch analysis status. Retrying...'',
                         destructive = True \<rparr>],
                  timer := Some 4000 \<rparr>)"

text \<open>
  The effect body: nothing without an active job, otherwise a fresh flag and the first
  call of \<open>poll\<close>. The cleanup only sets the flag.
\<close>

definition poll_effect :: "poll_state \<Rightarrow> poll_state" where
  "poll_effect st =
     (case activeJobId st of
        None \<Rightarrow> st
      | Some j \<Rightarrow> if j = [] then st
                  else poll_start (st\<lparr> job := j, isCancelled := False \<rparr>))"

definition poll_cleanup :: "poll_state \<Rightarrow> poll_state" where
  "poll_cleanup st = st\<lparr> isCancelled := True \<rparr>"

text \<open>What the event loop can deliver to one effect instance.\<close>

datatype poll_event =
    TimerFires
  | Fulfilled JobStatusResponse
  | Rejected "string option"
  | Teardown

fun poll_step :: "poll_state \<Rightarrow> poll_event \<Rightarrow> poll_state" where
  "poll_step st TimerFires =
     (case timer st of None \<Rightarrow> st | Some delay \<Rightarrow> poll_start (st\<lparr> timer := None \<rparr>))"
| "poll_step st (Fulfilled status) = (if in_flight st then poll_fulfilled status st else st)"
| "poll_step st (Rejected message) = (if in_flight st then poll_rejected message st else st)"
| "poll_step st Teardown = poll_cleanup st"

definition poll_run :: "poll_state \<Rightarrow> poll_event list \<Rightarrow> poll_state" where
  "poll_run st events = foldl poll_step st events"

section \<open>Chat view: initial load (pages/Chat.tsx, \<open>load\<close>)\<close>

text \<open>\<open>ChatHistoryItem\<close> of the backend API.\<close>

record ChatHistoryItem =
  ch_role :: role
  ch_content :: string

record chat_state =
  messages :: "Message list"
  loadingInitial :: bool
  documentName :: string
  riskScore :: "int option"
  riskyClauses :: "int option"
  totalChunks :: "int option"
  suggestedQuestions :: "string list"
  chat_toasts :: "toast list"

text \<open>The component's state before the first effect runs (the \<open>useState\<close> defaults).\<close>

definition initial_chat :: chat_state where
  "initial_chat =
     \<lparr> messages = [], loadingInitial = True, documentName = [], riskScore = None,
       riskyClauses = None, totalChunks = None, suggestedQuestions = [],
       chat_toasts = [] \<rparr>"

text \<open>
  What \<open>localStorage.getItem\<close> and \<open>JSON.parse\<close> give for the fallback key: no entry
  (null or the empty string), an entry that cannot be read as a list of messages, or
  the stored list.
\<close>

datatype local_entry = NoEntry | Unparsable | Stored "Message list"

text \<open>
  Everything \<open>load\<close> obtains from outside: the outcomes of the three bootstrap
  requests and of \<open>getChatHistory\<close> (\<open>Inl\<close> is a rejection, carrying
  \<open>error?.message\<close>), the signed-in user's id, the fallback entry, and the clock
  reading used for timestamps.
\<close>

record load_inputs =
  in_details :: "string option + DocumentDetails"
  in_report :: "string option + string"
  in_suggestions :: "string option + string list"
  in_user :: "string option"
  in_history :: "string option + ChatHistoryItem list"
  in_local :: local_entry
  in_now :: string

definition truthy :: "string option \<Rightarrow> bool" where
  "truthy s = (case s of None \<Rightarrow> False | Some v \<Rightarrow> v \<noteq> [])"

definition report_message :: "string \<Rightarrow> string \<Rightarrow> string \<Rightarrow> Message" where
  "report_message documentId report now =
     \<lparr> m_id = ''report-'' @ documentId, m_role = Assistant, m_content = report,
       m_timestamp = now, isReport = Some True \<rparr>"

definition summary_message :: "string \<Rightarrow> DocumentDetails \<Rightarrow> string \<Rightarrow> Message" where
  "summary_message documentId details now =
     \<lparr> m_id = ''summary-'' @ documentId, m_role = Assistant,
       m_content = summary_text details, m_timestamp = now, isReport = None \<rparr>"

definition convertedHistory :: "string \<Rightarrow> string \<Rightarrow> ChatHistoryItem list \<Rightarrow> Message list" where
  "convertedHistory documentId now supabaseHistory =
     map (\<lambda>(idx, msg).
            \<lparr> m_id = ''chat-'' @ string_of_nat idx @ ''-'' @ documentId,
              m_role = ch_role msg, m_content = ch_content msg,
              m_timestamp = now, isReport = None \<rparr>)
         (enumerate 0
            (filter (\<lambda>msg. \<not> includes_str (ch_content msg) summary_marker) supabaseHistory))"

text \<open>The filter shared by the fallback read and by both persistence writes.\<close>

definition persistable :: "Message \<Rightarrow> bool" where
  "persistable m = (isReport m \<noteq> Some True \<and> \<not> includes_str (m_content m) summary_marker)"

definition localHistory :: "string \<Rightarrow> Message list \<Rightarrow> Message list" where
  "localHistory documentId parsed =
     map (\<lambda>(idx, m). m\<lparr> m_id := ''local-'' @ string_of_nat idx @ ''-'' @ documentId \<rparr>)
         (enumerate 0 (filter persistable parsed))"

text \<open>
  \<open>load\<close>, for a document id that is present. \<open>Promise.all\<close> rejects with the
  rejection that happens first in time; the model takes the first in argument order,
  which only affects the text of the error notification. In the inner \<open>try\<close> the
  transcript is set in the branch of a non-empty history and in the \<open>catch\<close>; when the
  user is absent or the history is empty, control falls through to \<open>finally\<close>.
\<close>

definition load :: "string \<Rightarrow> load_inputs \<Rightarrow> chat_state \<Rightarrow> chat_state" where
  "load documentId inp st0 =
     (let st1 = st0\<lparr> loadingInitial := True \<rparr>;
          failed = (\<lambda>message.
             st1\<lparr> chat_toasts := chat_toasts st1 @
                     [\<lparr> title = ''Error'',
                        description = or_else message
                          ''Failed to load document details and initial analysis.'',
                        destructive = True \<rparr>],
                  loadingInitial := False \<rparr>)
      in case in_details inp of
           Inl message \<Rightarrow> failed message
         | Inr details \<Rightarrow>
        (case in_report inp of
           Inl message \<Rightarrow> failed message
         | Inr report \<Rightarrow>
        (case in_suggestions inp of
           Inl message \<Rightarrow> failed message
         | Inr suggestions \<Rightarrow>
             (let st2 = st1\<lparr> documentName := file_name details,
                             riskScore := Some (risk_score details),
                             riskyClauses := Some (risky_chunks details),
                             totalChunks := Some (total_chunks details),
                             suggestedQuestions := suggestions \<rparr>;
                  baseMessages = [report_message documentId report (in_now inp),
                                  summary_message documentId details (in_now inp)];
                  st3 =
                    (if truthy (in_user inp) then
                       (case in_history inp of
                          Inr supabaseHistory \<Rightarrow>
                            if length supabaseHistory > 0 then
                              st2\<lparr> messages := baseMessages @
                                     convertedHistory documentId (in_now inp) supabaseHistory \<rparr>
                            else st2
                        | Inl e \<Rightarrow>
                            (case in_local inp of
                               Stored parsed \<Rightarrow>
                                 st2\<lparr> messages := baseMessages @ localHistory documentId parsed \<rparr>
                             | Unparsable \<Rightarrow> st2\<lparr> messages := baseMessages \<rparr>
                             | NoEntry \<Rightarrow> st2\<lparr> messages := baseMessages \<rparr>))
                     else st2)
              in st3\<lparr> loadingInitial := False \<rparr>))))"

section \<open>Chat view: debounced persistence (pages/Chat.tsx, \<open>saveHistory\<close>)\<close>

text \<open>
  Payloads as JSON: an object is the list of its fields. \<open>JSON.stringify\<close> leaves out
  a field whose value is \<open>undefined\<close>.
\<close>

datatype jvalue = JStr string | JBool bool

type_synonym jobject = "(string \<times> jvalue) list"

definition json_of_item :: "ChatHistoryItem \<Rightarrow> jobject" where
  "json_of_item item =
     [(''role'', JStr (role_str (ch_role item))), (''content'', JStr (ch_content item))]"

definition json_of_message :: "Message \<Rightarrow> jobject" where
  "json_of_message m =
     [(''id'', JStr (m_id m)), (''role'', JStr (role_str (m_role m))),
      (''content'', JStr (m_content m)), (''timestamp'', JStr (m_timestamp m))]
     @ (case isReport m of None \<Rightarrow> [] | Some b \<Rightarrow> [(''isReport'', JBool b)])"

text \<open>
  A store write: \<open>saveChatHistory(userId, documentId, messages)\<close> to the primary
  store, or \<open>localStorage.setItem(key, JSON.stringify(messages))\<close>.
\<close>

datatype store_write =
    PrimarySave string string "jobject list"
  | LocalSet string "jobject list"

text \<open>
  One instance of the persistence effect: the values its closure captured, the pending
  debounce timer (its delay), whether \<open>saveChatHistory\<close> awaits its answer, and the
  log of store writes.
\<close>

record save_state =
  sv_documentId :: "string option"
  sv_userId :: "string option"
  sv_messages :: "Message list"
  sv_timer :: "nat option"
  sv_in_flight :: bool
  writes :: "store_write list"

definition save_effect :: "save_state \<Rightarrow> save_state" where
  "save_effect st =
     (if \<not> truthy (sv_documentId st) \<or> \<not> truthy (sv_userId st)
         \<or> length (sv_messages st) \<le> 2
      then st else st\<lparr> sv_timer := Some 2000 \<rparr>)"

text \<open>The cleanup is \<open>clearTimeout(timer)\<close>.\<close>

definition save_cleanup :: "save_state \<Rightarrow> save_state" where
  "save_cleanup st = st\<lparr> sv_timer := None \<rparr>"

text \<open>
  \<open>saveHistory\<close> up to its \<open>await\<close>. The effect only arms the timer when both ids
  are present, so the other branches of the \<open>case\<close> are never taken.
\<close>

definition saveHistory_start :: "save_state \<Rightarrow> save_state" where
  "saveHistory_start st =
     (case (sv_userId st, sv_documentId st) of
        (Some userId, Some documentId) \<Rightarrow>
          (let history = map (\<lambda>m. \<lparr> ch_role = m_role m, ch_content = m_content m \<rparr>)
                             (filter persistable (sv_messages st))
           in if length history > 0
              then st\<lparr> writes := writes st @
                                   [PrimarySave userId documentId (map json_of_item history)],
                       sv_in_flight := True \<rparr>
              else st)
      | _ \<Rightarrow> st)"

text \<open>The \<open>catch\<close> branch: the filtered messages themselves are stringified.\<close>

definition saveHistory_rejected :: "save_state \<Rightarrow> save_state" where
  "saveHistory_rejected st =
     (case sv_documentId st of
        Some documentId \<Rightarrow>
          st\<lparr> sv_in_flight := False,
              writes := writes st @
                [LocalSet (''chat_'' @ documentId)
                          (map json_of_message (filter persistable (sv_messages st)))] \<rparr>
      | None \<Rightarrow> st\<lparr> sv_in_flight := False \<rparr>)"

datatype save_event = DebounceFires | SaveFulfilled | SaveRejected | Cleanup

fun save_step :: "save_state \<Rightarrow> save_event \<Rightarrow> save_state" where
  "save_step st DebounceFires =
     (case sv_timer st of
        None \<Rightarrow> st
      | Some delay \<Rightarrow> saveHistory_start (st\<lparr> sv_timer := None \<rparr>))"
| "save_step st SaveFulfilled = (if sv_in_flight st then st\<lparr> sv_in_flight := False \<rparr> else st)"
| "save_step st SaveRejected = (if sv_in_flight st then saveHistory_rejected st else st)"
| "save_step st Cleanup = save_cleanup st"

definition save_run :: "save_state \<Rightarrow> save_event list \<Rightarrow> save_state" where
  "save_run st events = foldl save_step st events"

text \<open>The payload of a write, whichever store it went to.\<close>

fun payload :: "store_write \<Rightarrow> jobject list" where
  "payload (PrimarySave userId documentId msgs) = msgs"
| "payload (LocalSet key msgs) = msgs"

section \<open>Chat view: message rendering (pages/Chat.tsx, \<open>RichText\<close>)\<close>

text \<open>
  The block elements \<open>RichText\<close> pushes, without styling and React keys. Text that
  the source hands to \<open>formatInline\<close> is kept as it is passed; inline spans are not
  part of this model.
\<close>

datatype element =
    CodeBlock string
  | Spacer
  | Heading nat string
  | Rule
  | Bullet string
  | Numbered "string option" string
  | Paragraph string

record rich_state =
  elements :: "element list"
  codeBuffer :: "string list"
  inCode :: bool
  consecutiveEmptyLines :: nat

definition newline :: string where
  "newline = [CHR 0x0A]"

definition fence :: string where
  "fence = [CHR 0x60, CHR 0x60, CHR 0x60]"

definition is_digit :: "char \<Rightarrow> bool" where
  "is_digit c = (c \<in> set ''0123456789'')"

text \<open>The test \<open>/^\d+\.\s+/\<close>.\<close>

definition numbered_test :: "string \<Rightarrow> bool" where
  "numbered_test line =
     (let digits = takeWhile is_digit line; rest = dropWhile is_digit line
      in digits \<noteq> [] \<and>
         (case rest of
            c # d # _ \<Rightarrow> c = CHR ''.'' \<and> is_space d
          | _ \<Rightarrow> False))"

text \<open>
  The match \<open>/^(\d+\.)\s+(.*)$/\<close> on a line that passed the test: the number token
  and the text behind the white space. The dot of the pattern does not match a carriage
  return, so a remainder holding one makes the match fail (\<open>None\<close>).
\<close>

definition numbered_match :: "string \<Rightarrow> (string \<times> string) option" where
  "numbered_match line =
     (let digits = takeWhile is_digit line;
          remainder = dropWhile is_space (drop 1 (dropWhile is_digit line))
      in if CHR 0x0D \<in> set remainder then None else Some (digits @ ''.'', remainder))"

definition flushCode :: "rich_state \<Rightarrow> element option \<times> rich_state" where
  "flushCode st =
     (if codeBuffer st = [] then (None, st)
      else (Some (CodeBlock (join newline (codeBuffer st))), st\<lparr> codeBuffer := [] \<rparr>))"

definition push :: "element \<Rightarrow> rich_state \<Rightarrow> rich_state" where
  "push e st = st\<lparr> elements := elements st @ [e] \<rparr>"

text \<open>The body of \<open>lines.forEach\<close>.\<close>

definition render_line :: "rich_state \<Rightarrow> string \<Rightarrow> rich_state" where
  "render_line st line =
     (if startsWith (trim line) fence then
        (if inCode st then
           (case flushCode st of
              (Some block, st') \<Rightarrow> (push block st')\<lparr> inCode := False \<rparr>
            | (None, st') \<Rightarrow> st'\<lparr> inCode := False \<rparr>)
         else st\<lparr> inCode := True \<rparr>)
      else if inCode st then st\<lparr> codeBuffer := codeBuffer st @ [line] \<rparr>
      else if trim line = [] then
        (let st' = st\<lparr> consecutiveEmptyLines := consecutiveEmptyLines st + 1 \<rparr>
         in if consecutiveEmptyLines st' = 1 then push Spacer st' else st')
      else
        (let st' = st\<lparr> consecutiveEmptyLines := 0 \<rparr>
         in if startsWith line ''## '' then push (Heading 1 (drop 3 line)) st'
            else if startsWith line ''### '' then push (Heading 2 (drop 4 line)) st'
            else if startsWith line ''#### '' then push (Heading 3 (drop 5 line)) st'
            else if trim line = ''---'' \<or> trim line = ''***'' then push Rule st'
            else if startsWith line ''- '' then push (Bullet (drop 2 line)) st'
            else if numbered_test line then
              (case numbered_match line of
                 Some (token, text) \<Rightarrow> push (Numbered (Some token) text) st'
               | None \<Rightarrow> push (Numbered None []) st')
            else push (Paragraph line) st'))"

definition initial_rich :: rich_state where
  "initial_rich =
     \<lparr> elements = [], codeBuffer = [], inCode = False, consecutiveEmptyLines = 0 \<rparr>"

text \<open>The flush after the loop.\<close>

definition finish :: "rich_state \<Rightarrow> element list" where
  "finish st =
     (if inCode st \<and> codeBuffer st \<noteq> [] then
        (case flushCode st of
           (Some block, st') \<Rightarrow> elements st' @ [block]
         | (None, st') \<Rightarrow> elements st')
      else elements st)"

definition RichText :: "string \<Rightarrow> element list" where
  "RichText content = finish (foldl render_line initial_rich (split_on CHR 0x0A content))"

section \<open>Example inputs\<close>

text \<open>Three messages: the second repeats role and first 100 characters of the first.\<close>

definition ex_msg_first :: Message where
  "ex_msg_first =
     \<lparr>m_id = ''1'', m_role = User, m_content = replicate 100 CHR ''x'' @ ''first'',
      m_timestamp = ''t'', isReport = None\<rparr>"

definition ex_msg_second :: Message where
  "ex_msg_second =
     \<lparr>m_id = ''2'', m_role = User, m_content = replicate 100 CHR ''x'' @ ''second'',
      m_timestamp = ''t'', isReport = None\<rparr>"

definition ex_msg_third :: Message where
  "ex_msg_third =
     \<lparr>m_id = ''3'', m_role = Assistant, m_content = replicate 100 CHR ''x'' @ ''first'',
      m_timestamp = ''t'', isReport = None\<rparr>"

definition ex_docs :: "DocumentSummary list" where
  "ex_docs =
     [\<lparr>ds_status = ''completed'', ds_risk_score = Some 70\<rparr>,
      \<lparr>ds_status = ''completed'', ds_risk_score = Some 71\<rparr>,
      \<lparr>ds_status = ''completed'', ds_risk_score = Some 39\<rparr>,
      \<lparr>ds_status = ''completed'', ds_risk_score = None\<rparr>,
      \<lparr>ds_status = ''processing'', ds_risk_score = Some 90\<rparr>]"

definition ex_exists_response :: response where
  "ex_exists_response =
     \<lparr>r_ok = True, r_status = 200,
      r_json = JsonData \<lparr>b_exists = Some True, b_error = None, b_message = Some ''ok''\<rparr>\<rparr>"

text \<open>A task being analysed as job \<open>job-1\<close>, and the page right after the effect ran.\<close>

definition ex_task :: UploadFile where
  "ex_task =
     \<lparr> uf_id = ''1700000000000-nda.pdf'',
       uf_file = \<lparr> f_name = ''nda.pdf'', f_size = 1024 \<rparr>,
       uf_progress = 5, uf_status = Processing, uf_error = None,
       jobId = Some ''job-1'', jobStatus = None \<rparr>"

definition ex_page :: poll_state where
  "ex_page =
     \<lparr> files = [ex_task], activeJobId = Some ''job-1'', toasts = [], navigations = [],
       requests = [], job = [], isCancelled = False, in_flight = False, timer = None \<rparr>"

definition ex_processing :: "nat \<Rightarrow> JobStatusResponse" where
  "ex_processing p =
     \<lparr> job_id = ''job-1'', js_status = JobProcessing, js_progress = Some p,
       js_stage = ''Extracting text from PDF'', js_result = None, js_error = None \<rparr>"

definition ex_completed :: JobStatusResponse where
  "ex_completed =
     \<lparr> job_id = ''job-1'', js_status = JobCompleted, js_progress = Some 100,
       js_stage = ''Analysis complete'',
       js_result = Some \<lparr> document_id = ''doc-1'' \<rparr>, js_error = None \<rparr>"

definition ex_failed :: JobStatusResponse where
  "ex_failed =
     \<lparr> job_id = ''job-1'', js_status = JobFailed, js_progress = None,
       js_stage = [], js_result = None, js_error = Some ''OCR failed'' \<rparr>"

definition ex_started :: poll_state where
  "ex_started = poll_effect ex_page"

text \<open>A transcript of three messages, held by a persistence effect not yet run.\<close>

definition ex_details :: DocumentDetails where
  "ex_details =
     \<lparr> file_name = ''nda.pdf'', risk_score = 70, risky_chunks = 3, total_chunks = 12 \<rparr>"

definition ex_question :: Message where
  "ex_question =
     \<lparr> m_id = ''1700000000500'', m_role = User, m_content = ''What is the term?'',
       m_timestamp = ''t1'', isReport = None \<rparr>"

definition ex_save :: save_state where
  "ex_save =
     \<lparr> sv_documentId = Some ''doc-1'', sv_userId = Some ''u1'',
       sv_messages = [report_message ''doc-1'' ''## Report'' ''t0'',
                      summary_message ''doc-1'' ex_details ''t0'',
                      ex_question],
       sv_timer = None, sv_in_flight = False, writes = [] \<rparr>"

text \<open>
  A stored entry is clean when it is not flagged as a report and its content does not
  hold the summary marker phrase.
\<close>

definition clean_entry :: "jobject \<Rightarrow> bool" where
  "clean_entry obj =
     (map_of obj ''isReport'' \<noteq> Some (JBool True)
      \<and> (case map_of obj ''content'' of
            Some (JStr c) \<Rightarrow> \<not> includes_str c summary_marker
          | _ \<Rightarrow> True))"

text \<open>
  A load in which every bootstrap request succeeds, a user is signed in, and the primary
  store answers with an empty history.
\<close>

definition ex_inputs :: load_inputs where
  "ex_inputs =
     \<lparr> in_details = Inr ex_details, in_report = Inr ''## Report'',
       in_suggestions = Inr [''What are the key risks in this contract?''],
       in_user = Some ''u1'', in_history = Inr [], in_local = NoEntry, in_now = ''t0'' \<rparr>"

text \<open>Two files of the same name, and a clock that reads the same millisecond twice.\<close>

definition ex_batch :: "File list" where
  "ex_batch = [\<lparr> f_name = ''nda.pdf'', f_size = 1024 \<rparr>,
               \<lparr> f_name = ''nda.pdf'', f_size = 2048 \<rparr>]"

definition ex_clock :: "nat \<Rightarrow> nat" where
  "ex_clock i = 1700000000000"

text \<open>The rendering example of the specification, and a fence with a language tag.\<close>

definition ex_markdown :: string where
  "ex_markdown =
     ''## Title'' @ newline @ newline
     @ ''Some *italic* and **bold** text'' @ newline
     @ ''- item one'' @ newline
     @ ''- item two'' @ newline
     @ fence @ newline
     @ ''code here'' @ newline
     @ fence"

definition ex_tagged_fence :: string where
  "ex_tagged_fence = fence @ ''js'' @ newline @ ''x'' @ newline @ fence"

definition ex_failed_silent :: JobStatusResponse where
  "ex_failed_silent = ex_failed\<lparr> js_error := None \<rparr>"

section \<open>Properties\<close>

subsection \<open>Message deduplication\<close>

lemma role_str_inj: "role_str r = role_str r' \<longleftrightarrow> r = r'"
  by (cases r; cases r') simp_all

lemma role_str_prefix_inj:
  "role_str r @ ''::'' @ a = role_str r' @ ''::'' @ b \<longleftrightarrow> r = r' \<and> a = b"
  by (cases r; cases r') auto

lemma dedup_key_eq:
  "dedup_key m = dedup_key m' \<longleftrightarrow>
     m_role m = m_role m' \<and> take 100 (m_content m) = take 100 (m_content m')"
  unfolding dedup_key_def by (rule role_str_prefix_inj)

lemma dedup_filter_index:
  "dedup_filter seen ms =
     map (\<lambda>i. ms ! i)
       (filter (\<lambda>i. seen (dedup_key (ms ! i)) = None \<and>
                     (\<forall>j<i. dedup_key (ms ! j) \<noteq> dedup_key (ms ! i)))
          [0..<length ms])"
proof (induction ms arbitrary: seen)
  case Nil
  show ?case by simp
next
  case (Cons m ms)
  let ?P = "\<lambda>s xs i. s (dedup_key (xs ! i)) = None \<and>
                     (\<forall>j<i. dedup_key (xs ! j) \<noteq> dedup_key (xs ! i))"
  have upt: "[0..<length (m # ms)] = 0 # map Suc [0..<length ms]"
    by (simp add: upt_conv_Cons map_Suc_upt del: upt_Suc)
  have shift: "map (\<lambda>i. (m # ms) ! i) (filter (?P seen (m # ms)) (map Suc [0..<length ms]))
      = map (\<lambda>i. ms ! i) (filter (\<lambda>i. ?P seen (m # ms) (Suc i)) [0..<length ms])"
    by (simp add: filter_map comp_def)
  show ?case
  proof (cases "seen (dedup_key m) = None")
    case True
    have pred: "filter (\<lambda>i. ?P seen (m # ms) (Suc i)) [0..<length ms]
        = filter (?P (seen(dedup_key m \<mapsto> True)) ms) [0..<length ms]"
      by (rule filter_cong [OF refl]) (auto simp: All_less_Suc2)
    have "dedup_filter seen (m # ms) = m # dedup_filter (seen(dedup_key m \<mapsto> True)) ms"
      using True by simp
    also have "\<dots> = m # map (\<lambda>i. ms ! i)
        (filter (?P (seen(dedup_key m \<mapsto> True)) ms) [0..<length ms])"
      by (simp only: Cons.IH)
    also have "\<dots> = map (\<lambda>i. (m # ms) ! i) (filter (?P seen (m # ms)) [0..<length (m # ms)])"
      unfolding upt using True shift pred by simp
    finally show ?thesis .
  next
    case False
    have pred: "filter (\<lambda>i. ?P seen (m # ms) (Suc i)) [0..<length ms]
        = filter (?P seen ms) [0..<length ms]"
      using False by (intro filter_cong [OF refl]) (auto simp: All_less_Suc2)
    have "dedup_filter seen (m # ms) = dedup_filter seen ms"
      using False by simp
    also have "\<dots> = map (\<lambda>i. ms ! i) (filter (?P seen ms) [0..<length ms])"
      by (simp only: Cons.IH)
    also have "\<dots> = map (\<lambda>i. (m # ms) ! i) (filter (?P seen (m # ms)) [0..<length (m # ms)])"
      unfolding upt using False shift pred by simp
    finally show ?thesis .
  qed
qed

lemma dedup_filter_subseq: "subseq (dedup_filter seen ms) ms"
  by (induction ms arbitrary: seen) (auto simp: Let_def)

text \<open>
  Claim C8. \<open>deduplicateMessages\<close> keeps exactly the messages that no earlier message
  matches in both role and first 100 characters of content (the first message of each
  key), in their original order: the result lists the kept positions in increasing
  order and is a subsequence of the input.
\<close>

theorem deduplicateMessages_keeps_first:
  "deduplicateMessages ms =
     map (\<lambda>i. ms ! i)
       (filter (\<lambda>i. \<forall>j<i. \<not> (m_role (ms ! j) = m_role (ms ! i) \<and>
                       take 100 (m_content (ms ! j)) = take 100 (m_content (ms ! i))))
          [0..<length ms])
   \<and> subseq (deduplicateMessages ms) ms"
proof
  show "deduplicateMessages ms =
     map (\<lambda>i. ms ! i)
       (filter (\<lambda>i. \<forall>j<i. \<not> (m_role (ms ! j) = m_role (ms ! i) \<and>
                       take 100 (m_content (ms ! j)) = take 100 (m_content (ms ! i))))
          [0..<length ms])"
    unfolding deduplicateMessages_def by (simp add: dedup_filter_index dedup_key_eq)
  show "subseq (deduplicateMessages ms) ms"
    unfolding deduplicateMessages_def by (rule dedup_filter_subseq)
qed

theorem deduplicateMessages_keeps_first_witness:
  "deduplicateMessages [ex_msg_first, ex_msg_second, ex_msg_third]
     = [ex_msg_first, ex_msg_third]"
proof -
  let ?xs = "[ex_msg_first, ex_msg_second, ex_msg_third]"
  let ?P = "\<lambda>i. \<forall>j<i. \<not> (m_role (?xs ! j) = m_role (?xs ! i) \<and>
                take 100 (m_content (?xs ! j)) = take 100 (m_content (?xs ! i)))"
  have r: "m_role ex_msg_first = User" "m_role ex_msg_second = User"
          "m_role ex_msg_third = Assistant"
    by (simp_all add: ex_msg_first_def ex_msg_second_def ex_msg_third_def)
  have c: "take 100 (m_content ex_msg_first) = replicate 100 CHR ''x''"
          "take 100 (m_content ex_msg_second) = replicate 100 CHR ''x''"
          "take 100 (m_content ex_msg_third) = replicate 100 CHR ''x''"
    by (simp_all add: ex_msg_first_def ex_msg_second_def ex_msg_third_def)
  have p0: "?P 0 = True" by simp
  have p1: "?P (Suc 0) = False" by (simp add: r c)
  have p2: "?P (Suc (Suc 0)) = True" by (simp add: r c less_Suc_eq)
  have u: "[0..<length ?xs] = [0, Suc 0, Suc (Suc 0)]"
    by (simp add: upt_rec)
  have f: "filter ?P [0, Suc 0, Suc (Suc 0)] = [0, Suc (Suc 0)]"
    by (simp only: filter.simps p0 p1 p2 if_True if_False)
  have "deduplicateMessages ?xs = map (\<lambda>i. ?xs ! i) (filter ?P [0..<length ?xs])"
    using deduplicateMessages_keeps_first [of ?xs] by (rule conjunct1)
  also have "\<dots> = [ex_msg_first, ex_msg_third]"
    unfolding u f by simp
  finally show ?thesis .
qed

subsection \<open>Risk tiers\<close>

lemma toUpperCase_levels:
  "toUpperCase ''high'' = ''HIGH''"
  "toUpperCase ''medium'' = ''MEDIUM''"
  "toUpperCase ''low'' = ''LOW''"
  by (simp_all add: toUpperCase_def toUpperCase_char_def lower_letters_def upper_letters_def)

lemma riskLevel_cases:
  "(riskLevel s = ''high'' \<longleftrightarrow> s > 70)"
  "(riskLevel s = ''medium'' \<longleftrightarrow> 40 \<le> s \<and> s \<le> 70)"
  "(riskLevel s = ''low'' \<longleftrightarrow> s < 40)"
  by (auto simp: riskLevel_def)

text \<open>
  Claim C1, as stated, at its boundary: a score of exactly 70 is labelled medium by the
  chat summary, not high.
\<close>

theorem riskLevel_70_is_medium:
  "riskLevel 70 = ''medium'' \<and> riskLevel 70 \<noteq> ''high''"
  by (simp add: riskLevel_def)

text \<open>
  Claim C1, amended. The label of the chat summary is high exactly for scores above 70,
  low exactly for scores below 40 and medium exactly for scores from 40 to 70, both
  ends included; the summary text carries that label in upper case; and the dashboard
  counts a document as high-risk exactly when it is completed and its score (0 when
  missing) is labelled high, and as safe exactly when it is completed and labelled low.
\<close>

theorem risk_tiers_consistent:
  "(riskLevel s = ''high'' \<longleftrightarrow> s > 70)
   \<and> (riskLevel s = ''medium'' \<longleftrightarrow> 40 \<le> s \<and> s \<le> 70)
   \<and> (riskLevel s = ''low'' \<longleftrightarrow> s < 40)
   \<and> (\<exists>pre post. summary_text details
          = pre @ ''This looks like a **'' @ toUpperCase (riskLevel (risk_score details))
              @ ''** risk agreement.'' @ post)
   \<and> highRiskCount (getDashboardStats docs)
       = length (filter (\<lambda>d. ds_status d = ''completed''
                              \<and> riskLevel (score_or_zero d) = ''high'') docs)
   \<and> safeCount (getDashboardStats docs)
       = length (filter (\<lambda>d. ds_status d = ''completed''
                              \<and> riskLevel (score_or_zero d) = ''low'') docs)"
proof -
  have summary: "\<exists>pre post. summary_text details
          = pre @ ''This looks like a **'' @ toUpperCase (riskLevel (risk_score details))
              @ ''** risk agreement.'' @ post"
    unfolding summary_text_def
    by (rule exI [of _ "summary_marker @ '' '' @ [CHR 0x22] @ file_name details @ [CHR 0x22]
           @ '' and found '' @ string_of_int (risky_chunks details)
           @ '' risky clauses out of '' @ string_of_int (total_chunks details)
           @ '' sections. Overall risk score: '' @ string_of_int (risk_score details)
           @ ''%. ''"],
        rule exI [of _ "'' Ask me anything about specific clauses, negotiation levers, or implications.''"])
       simp
  have high: "highRiskCount (getDashboardStats docs)
       = length (filter (\<lambda>d. ds_status d = ''completed''
                              \<and> riskLevel (score_or_zero d) = ''high'') docs)"
    by (simp add: getDashboardStats_def Let_def riskLevel_cases conj_commute)
  have safe: "safeCount (getDashboardStats docs)
       = length (filter (\<lambda>d. ds_status d = ''completed''
                              \<and> riskLevel (score_or_zero d) = ''low'') docs)"
    by (simp add: getDashboardStats_def Let_def riskLevel_cases conj_commute)
  show ?thesis
    using summary high safe by (simp only: riskLevel_cases simp_thms)
qed

theorem risk_tiers_consistent_witness:
  "riskLevel 40 = ''medium'' \<and> riskLevel 71 = ''high'' \<and> riskLevel 39 = ''low''
   \<and> highRiskCount (getDashboardStats ex_docs) = 1
   \<and> safeCount (getDashboardStats ex_docs) = 2"
proof -
  have "length (filter (\<lambda>d. ds_status d = ''completed''
                              \<and> riskLevel (score_or_zero d) = ''high'') ex_docs) = 1"
    by (simp add: ex_docs_def riskLevel_def score_or_zero_def)
  moreover have "length (filter (\<lambda>d. ds_status d = ''completed''
                              \<and> riskLevel (score_or_zero d) = ''low'') ex_docs) = 2"
    by (simp add: ex_docs_def riskLevel_def score_or_zero_def)
  ultimately show ?thesis
    using risk_tiers_consistent [of 40 undefined ex_docs]
    by (simp add: riskLevel_def)
qed

subsection \<open>Document existence check\<close>

text \<open>
  Claim C10. \<open>checkDocumentExists\<close> never lets an exception out: it always returns a
  boolean. A transport error, a response that is not ok, and a successful response
  without an \<open>exists\<close> field all give false; the result is true only for a successful
  response whose body has \<open>exists = true\<close>.
\<close>

theorem checkDocumentExists_never_throws:
  "(\<exists>b. checkDocumentExists outcome = Inr b)
   \<and> checkDocumentExists (NetworkError e) = Inr False
   \<and> (\<not> r_ok r \<longrightarrow> checkDocumentExists (Responded r) = Inr False)
   \<and> (r_json r = JsonData d \<and> b_exists d = None
        \<longrightarrow> checkDocumentExists (Responded r) = Inr False)
   \<and> (checkDocumentExists outcome = Inr True
        \<longleftrightarrow> (\<exists>r' d'. outcome = Responded r' \<and> r_ok r' \<and> r_json r' = JsonData d'
                    \<and> b_exists d' = Some True))"
  by (auto simp: checkDocumentExists_def handleResponse_def
           split: fetch_outcome.splits sum.splits option.splits parsed.splits)

theorem checkDocumentExists_never_throws_witness:
  "checkDocumentExists (Responded ex_exists_response) = Inr True
   \<and> checkDocumentExists (Responded (ex_exists_response\<lparr>r_ok := False, r_status := 404\<rparr>))
       = Inr False
   \<and> checkDocumentExists
        (Responded (ex_exists_response\<lparr>r_json :=
            JsonData \<lparr>b_exists = None, b_error = None, b_message = None\<rparr>\<rparr>)) = Inr False"
  using checkDocumentExists_never_throws
          [of "Responded ex_exists_response" undefined
              "ex_exists_response\<lparr>r_ok := False, r_status := 404\<rparr>"
              "\<lparr>b_exists = None, b_error = None, b_message = None\<rparr>"]
        checkDocumentExists_never_throws
          [of "Responded ex_exists_response" undefined
              "ex_exists_response\<lparr>r_json :=
                 JsonData \<lparr>b_exists = None, b_error = None, b_message = None\<rparr>\<rparr>"
              "\<lparr>b_exists = None, b_error = None, b_message = None\<rparr>"]
  by (simp add: ex_exists_response_def)

subsection \<open>The poll loop\<close>

lemma poll_step_idle:
  "timer st = None \<Longrightarrow> \<not> in_flight st \<Longrightarrow>
     poll_step st e = st\<lparr> isCancelled := isCancelled st \<or> Teardown = e \<rparr>"
  by (cases e) (simp_all add: poll_cleanup_def)

lemma poll_run_idle:
  "timer st = None \<Longrightarrow> \<not> in_flight st \<Longrightarrow>
     poll_run st evs = st\<lparr> isCancelled := isCancelled st \<or> Teardown \<in> set evs \<rparr>"
  unfolding poll_run_def
proof (induction evs arbitrary: st)
  case Nil
  then show ?case by simp
next
  case (Cons e evs)
  have "foldl poll_step st (e # evs)
          = foldl poll_step (st\<lparr> isCancelled := isCancelled st \<or> Teardown = e \<rparr>) evs"
    using Cons.prems by (simp add: poll_step_idle)
  also have "\<dots> = st\<lparr> isCancelled := isCancelled st \<or> Teardown \<in> set (e # evs) \<rparr>"
    using Cons.prems by (subst Cons.IH) auto
  finally show ?case .
qed

lemma poll_run_idle_requests:
  "timer st = None \<Longrightarrow> \<not> in_flight st \<Longrightarrow> requests (poll_run st evs) = requests st"
  by (simp add: poll_run_idle)

lemma poll_fulfilled_completed:
  assumes "\<not> isCancelled st" "js_status status = JobCompleted"
          "result_document_id status = Some doc"
  shows "poll_fulfilled status st =
           st\<lparr> in_flight := False,
               files := map (mirror_task (job st) status) (files st),
               toasts := toasts st @
                   [\<lparr> title = ''Analysis complete'',
                      description = ''Opening interactive analysis and chat.'',
                      destructive = False \<rparr>],
               activeJobId := None,
               navigations := navigations st @ [''/chat/'' @ doc] \<rparr>"
  using assms by (simp add: poll_fulfilled_def Let_def)

lemma poll_fulfilled_failed:
  assumes "\<not> isCancelled st" "js_status status = JobFailed"
  shows "poll_fulfilled status st =
           st\<lparr> in_flight := False,
               files := map (mirror_task (job st) status) (files st),
               toasts := toasts st @
                   [\<lparr> title = ''Analysis failed'',
                      description = or_else (js_error status)
                                      ''An error occurred during analysis.'',
                      destructive = True \<rparr>],
               activeJobId := None \<rparr>"
  using assms by (simp add: poll_fulfilled_def Let_def)

lemma poll_fulfilled_running:
  assumes "\<not> isCancelled st" "js_status status = JobPending \<or> js_status status = JobProcessing"
  shows "poll_fulfilled status st =
           st\<lparr> in_flight := False,
               files := map (mirror_task (job st) status) (files st),
               timer := Some 2000 \<rparr>"
  using assms by (auto simp add: poll_fulfilled_def Let_def)

lemma mirror_task_error: "uf_error (mirror_task j status f) = uf_error f"
  by (simp add: mirror_task_def)

text \<open>
  Claim C3, amended. A status response that arrives while the loop is not cancelled
  resolves as follows. Completed with a non-empty result document id: polling stops (no
  timer, no request in flight, and no later event makes the loop issue another status
  request), the success notification is surfaced and navigation to the chat view of that
  document is triggered. Failed: polling stops in the same sense, the failure
  notification carries the service's error message or, when there is none, the generic
  text, and every task of the job gets status error and the response as its job-status
  snapshot, while the error-message field of the task itself is left as it was. Pending
  or processing: exactly one next tick is scheduled, after 2000 ms, and it issues exactly
  one further request.
\<close>

theorem poll_tick_resolutions:
  assumes "in_flight st" and "\<not> isCancelled st" and "timer st = None"
  shows
   "(js_status status = JobCompleted \<and> result_document_id status = Some doc \<longrightarrow>
       (let st' = poll_step st (Fulfilled status)
        in timer st' = None \<and> \<not> in_flight st' \<and> activeJobId st' = None
           \<and> toasts st' = toasts st @
                 [\<lparr> title = ''Analysis complete'',
                    description = ''Opening interactive analysis and chat.'',
                    destructive = False \<rparr>]
           \<and> navigations st' = navigations st @ [''/chat/'' @ doc]
           \<and> (\<forall>evs. requests (poll_run st' evs) = requests st)))
    \<and> (js_status status = JobFailed \<longrightarrow>
       (let st' = poll_step st (Fulfilled status)
        in timer st' = None \<and> \<not> in_flight st' \<and> activeJobId st' = None
           \<and> toasts st' = toasts st @
                 [\<lparr> title = ''Analysis failed'',
                    description = or_else (js_error status)
                                    ''An error occurred during analysis.'',
                    destructive = True \<rparr>]
           \<and> navigations st' = navigations st
           \<and> files st' =
                 map (\<lambda>f. if jobId f = Some (job st)
                          then f\<lparr> uf_progress := (case js_progress status of
                                                     Some p \<Rightarrow> p | None \<Rightarrow> uf_progress f),
                                  uf_status := Failed,
                                  jobStatus := Some status \<rparr>
                          else f) (files st)
           \<and> map uf_error (files st') = map uf_error (files st)
           \<and> (\<forall>evs. requests (poll_run st' evs) = requests st)))
    \<and> (js_status status = JobPending \<or> js_status status = JobProcessing \<longrightarrow>
       (let st' = poll_step st (Fulfilled status)
        in timer st' = Some 2000 \<and> \<not> in_flight st'
           \<and> activeJobId st' = activeJobId st
           \<and> toasts st' = toasts st \<and> navigations st' = navigations st
           \<and> requests st' = requests st
           \<and> requests (poll_step st' TimerFires) = requests st @ [job st]
           \<and> timer (poll_step st' TimerFires) = None
           \<and> in_flight (poll_step st' TimerFires)))"
proof -
  have step: "poll_step st (Fulfilled status) = poll_fulfilled status st"
    using assms by simp
  let ?st' = "poll_fulfilled status st"
  have completed: ?thesis
    if a: "js_status status = JobCompleted" "result_document_id status = Some doc"
  proof -
    have eq: "?st' = st\<lparr> in_flight := False,
               files := map (mirror_task (job st) status) (files st),
               toasts := toasts st @
                   [\<lparr> title = ''Analysis complete'',
                      description = ''Opening interactive analysis and chat.'',
                      destructive = False \<rparr>],
               activeJobId := None,
               navigations := navigations st @ [''/chat/'' @ doc] \<rparr>"
      using assms a by (simp add: poll_fulfilled_completed)
    have idle: "timer ?st' = None" "\<not> in_flight ?st'"
      using assms by (simp_all add: eq)
    have "\<forall>evs. requests (poll_run ?st' evs) = requests st"
      using poll_run_idle_requests [OF idle] by (simp add: eq)
    moreover have "toasts ?st' = toasts st @
                   [\<lparr> title = ''Analysis complete'',
                      description = ''Opening interactive analysis and chat.'',
                      destructive = False \<rparr>]"
        "navigations ?st' = navigations st @ [''/chat/'' @ doc]"
        "activeJobId ?st' = None"
      by (simp_all add: eq)
    ultimately show ?thesis
      using idle a unfolding Let_def step by simp
  qed
  have failed: ?thesis if a: "js_status status = JobFailed"
  proof -
    have eq: "?st' = st\<lparr> in_flight := False,
               files := map (mirror_task (job st) status) (files st),
               toasts := toasts st @
                   [\<lparr> title = ''Analysis failed'',
                      description = or_else (js_error status)
                                      ''An error occurred during analysis.'',
                      destructive = True \<rparr>],
               activeJobId := None \<rparr>"
      using assms a by (simp add: poll_fulfilled_failed)
    have idle: "timer ?st' = None" "\<not> in_flight ?st'"
      using assms by (simp_all add: eq)
    have "\<forall>evs. requests (poll_run ?st' evs) = requests st"
      using poll_run_idle_requests [OF idle] by (simp add: eq)
    moreover have "files ?st' =
                 map (\<lambda>f. if jobId f = Some (job st)
                          then f\<lparr> uf_progress := (case js_progress status of
                                                     Some p \<Rightarrow> p | None \<Rightarrow> uf_progress f),
                                  uf_status := Failed,
                                  jobStatus := Some status \<rparr>
                          else f) (files st)"
      using a by (simp add: eq mirror_task_def mirror_status_def cong: map_cong)
    moreover have "map uf_error (files ?st') = map uf_error (files st)"
      by (simp add: eq mirror_task_error comp_def)
    moreover have "toasts ?st' = toasts st @
                   [\<lparr> title = ''Analysis failed'',
                      description = or_else (js_error status)
                                      ''An error occurred during analysis.'',
                      destructive = True \<rparr>]"
        "navigations ?st' = navigations st"
        "activeJobId ?st' = None"
      by (simp_all add: eq)
    ultimately show ?thesis
      using idle a unfolding Let_def step by simp
  qed
  have running: ?thesis
    if a: "js_status status = JobPending \<or> js_status status = JobProcessing"
  proof -
    have eq: "?st' = st\<lparr> in_flight := False,
               files := map (mirror_task (job st) status) (files st),
               timer := Some 2000 \<rparr>"
      using assms a by (simp add: poll_fulfilled_running)
    have "timer ?st' = Some 2000" "\<not> in_flight ?st'" "activeJobId ?st' = activeJobId st"
         "toasts ?st' = toasts st" "navigations ?st' = navigations st"
         "requests ?st' = requests st"
         "requests (poll_step ?st' TimerFires) = requests st @ [job st]"
         "timer (poll_step ?st' TimerFires) = None"
         "in_flight (poll_step ?st' TimerFires)"
      by (simp_all add: eq poll_start_def)
    then show ?thesis
      using a unfolding Let_def step by auto
  qed
  show ?thesis
    using completed failed running by (cases "js_status status") auto
qed

lemma poll_sequential:
  "\<not> (in_flight st \<and> timer st \<noteq> None) \<Longrightarrow>
     \<not> (in_flight (poll_step st e) \<and> timer (poll_step st e) \<noteq> None)"
  by (cases e)
     (auto simp: poll_start_def poll_fulfilled_def poll_rejected_def poll_cleanup_def Let_def
           split: option.splits if_splits)

lemma ex_polling:
  "ex_started =
     \<lparr> files = [ex_task], activeJobId = Some ''job-1'', toasts = [], navigations = [],
       requests = [''job-1''], job = ''job-1'', isCancelled = False, in_flight = True,
       timer = None \<rparr>"
  by (simp add: ex_started_def poll_effect_def ex_page_def poll_start_def)

text \<open>
  The three-response sequence of the specification: after two processing responses the
  third, completed with document \<open>doc-1\<close>, navigates there, and whatever happens
  afterwards the loop has issued exactly three status requests.
\<close>

theorem poll_tick_resolutions_witness:
  "(let st = poll_run ex_started
               [Fulfilled (ex_processing 10), TimerFires, Fulfilled (ex_processing 55), TimerFires]
    in in_flight st \<and> \<not> isCancelled st \<and> timer st = None
       \<and> js_status ex_completed = JobCompleted
       \<and> result_document_id ex_completed = Some ''doc-1''
       \<and> requests st = [''job-1'', ''job-1'', ''job-1'']
       \<and> navigations (poll_step st (Fulfilled ex_completed)) = [''/chat/doc-1'']
       \<and> (\<forall>evs. requests (poll_run (poll_step st (Fulfilled ex_completed)) evs)
                  = [''job-1'', ''job-1'', ''job-1'']))"
proof -
  let ?st = "poll_run ex_started
               [Fulfilled (ex_processing 10), TimerFires, Fulfilled (ex_processing 55), TimerFires]"
  have st: "in_flight ?st" "\<not> isCancelled ?st" "timer ?st = None"
           "requests ?st = [''job-1'', ''job-1'', ''job-1'']" "navigations ?st = []"
    by (simp_all add: poll_run_def ex_polling poll_fulfilled_def poll_start_def
                      ex_processing_def result_document_id_def Let_def)
  have c: "js_status ex_completed = JobCompleted"
          "result_document_id ex_completed = Some ''doc-1''"
    by (simp_all add: ex_completed_def result_document_id_def)
  show ?thesis
    using poll_tick_resolutions [OF st(1-3), of ex_completed "''doc-1''"] st c
    unfolding Let_def by simp
qed

text \<open>
  Claim C3, as stated, on the response \<open>{status: failed, error: "OCR failed"}\<close>: the task
  gets status error, but its error message is not set to the service's message. On a
  failed response without an error text the task holds no message at all, neither in its
  own field nor in its job-status snapshot; the generic text exists only in the
  notification.
\<close>

theorem poll_failed_leaves_task_error_unset:
  "(let st = poll_step ex_started (Fulfilled ex_failed)
    in map uf_status (files st) = [Failed]
       \<and> map uf_error (files st) = [None]
       \<and> map uf_error (files st) \<noteq> [Some ''OCR failed''])
   \<and> (let st = poll_step ex_started (Fulfilled ex_failed_silent)
      in map uf_status (files st) = [Failed]
         \<and> map uf_error (files st) = [None]
         \<and> map (map_option js_error \<circ> jobStatus) (files st) = [Some None]
         \<and> map description (toasts st) = [''An error occurred during analysis.''])"
  by (simp add: ex_polling ex_task_def ex_failed_def ex_failed_silent_def poll_fulfilled_def
                result_document_id_def mirror_task_def mirror_status_def or_else_def Let_def)

lemma poll_rejected_eq:
  "\<not> isCancelled st \<Longrightarrow>
     poll_rejected message st =
       st\<lparr> in_flight := False,
           toasts := toasts st @
                      [\<lparr> title = ''Error'',
                         description = or_else message
                                         ''Failed to fetch analysis status. Retrying...'',
                         destructive = True \<rparr>],
           timer := Some 4000 \<rparr>"
  by (simp add: poll_rejected_def Let_def)

lemma poll_retry_rounds:
  "in_flight st \<Longrightarrow> \<not> isCancelled st \<Longrightarrow> timer st = None \<Longrightarrow>
     (let st_n = poll_run st (concat (map (\<lambda>m. [Rejected m, TimerFires]) ms))
      in in_flight st_n \<and> \<not> isCancelled st_n \<and> timer st_n = None
         \<and> files st_n = files st \<and> activeJobId st_n = activeJobId st
         \<and> navigations st_n = navigations st
         \<and> requests st_n = requests st @ replicate (length ms) (job st))"
proof (induction ms arbitrary: st)
  case Nil
  then show ?case by (simp add: poll_run_def)
next
  case (Cons m ms)
  let ?st1 = "poll_step (poll_step st (Rejected m)) TimerFires"
  have st1: "?st1 = st\<lparr> toasts := toasts st @
                      [\<lparr> title = ''Error'',
                         description = or_else m
                                         ''Failed to fetch analysis status. Retrying...'',
                         destructive = True \<rparr>],
                      requests := requests st @ [job st] \<rparr>"
    using Cons.prems by (simp add: poll_rejected_eq poll_start_def)
  have p: "in_flight ?st1" "\<not> isCancelled ?st1" "timer ?st1 = None"
    unfolding st1 using Cons.prems by simp_all
  have run: "poll_run st (concat (map (\<lambda>m. [Rejected m, TimerFires]) (m # ms)))
               = poll_run ?st1 (concat (map (\<lambda>m. [Rejected m, TimerFires]) ms))"
    by (simp add: poll_run_def)
  show ?case
    using Cons.IH [OF p] unfolding run Let_def st1
    by (simp add: replicate_append_same)
qed

text \<open>
  Claim C5, amended. When a status request rejects and the loop is not cancelled, the
  task list, the active job and the navigation are left alone, an error notification
  carrying the error's message (or the generic retry text) is surfaced, and the next poll
  is scheduled after 4000 ms and issues the next request. This goes on for any number of
  consecutive rejections: after each round the loop awaits a response again, with the
  tasks unchanged. After a pending or processing response the delay is 2000 ms.
\<close>

theorem poll_rejection_retries:
  assumes "in_flight st" and "\<not> isCancelled st" and "timer st = None"
  shows
   "(let st' = poll_step st (Rejected message)
     in files st' = files st \<and> activeJobId st' = activeJobId st
        \<and> navigations st' = navigations st \<and> \<not> isCancelled st'
        \<and> timer st' = Some 4000
        \<and> toasts st' = toasts st @
              [\<lparr> title = ''Error'',
                 description = or_else message
                                 ''Failed to fetch analysis status. Retrying...'',
                 destructive = True \<rparr>]
        \<and> requests (poll_step st' TimerFires) = requests st @ [job st]
        \<and> in_flight (poll_step st' TimerFires))
    \<and> (let st_n = poll_run st (concat (map (\<lambda>m. [Rejected m, TimerFires]) ms))
       in in_flight st_n \<and> \<not> isCancelled st_n \<and> timer st_n = None
          \<and> files st_n = files st \<and> activeJobId st_n = activeJobId st
          \<and> navigations st_n = navigations st
          \<and> requests st_n = requests st @ replicate (length ms) (job st))
    \<and> (js_status status = JobPending \<or> js_status status = JobProcessing \<longrightarrow>
          timer (poll_step st (Fulfilled status)) = Some 2000)"
proof (intro conjI)
  show "let st' = poll_step st (Rejected message)
     in files st' = files st \<and> activeJobId st' = activeJobId st
        \<and> navigations st' = navigations st \<and> \<not> isCancelled st'
        \<and> timer st' = Some 4000
        \<and> toasts st' = toasts st @
              [\<lparr> title = ''Error'',
                 description = or_else message
                                 ''Failed to fetch analysis status. Retrying...'',
                 destructive = True \<rparr>]
        \<and> requests (poll_step st' TimerFires) = requests st @ [job st]
        \<and> in_flight (poll_step st' TimerFires)"
    using assms unfolding Let_def by (simp add: poll_rejected_eq poll_start_def)
  show "let st_n = poll_run st (concat (map (\<lambda>m. [Rejected m, TimerFires]) ms))
       in in_flight st_n \<and> \<not> isCancelled st_n \<and> timer st_n = None
          \<and> files st_n = files st \<and> activeJobId st_n = activeJobId st
          \<and> navigations st_n = navigations st
          \<and> requests st_n = requests st @ replicate (length ms) (job st)"
    using assms by (rule poll_retry_rounds)
  show "js_status status = JobPending \<or> js_status status = JobProcessing \<longrightarrow>
          timer (poll_step st (Fulfilled status)) = Some 2000"
    using assms by (auto simp: poll_fulfilled_running)
qed

text \<open>
  Two rejections, then a processing response: the loop is still polling, the task is
  still processing, and the next tick is scheduled.
\<close>

theorem poll_rejection_retries_witness:
  "(let st = poll_run ex_started
               [Rejected None, TimerFires, Rejected (Some ''Failed to fetch''), TimerFires]
    in in_flight st \<and> \<not> isCancelled st
       \<and> map uf_status (files st) = [Processing]
       \<and> activeJobId st = Some ''job-1''
       \<and> requests st = [''job-1'', ''job-1'', ''job-1'']
       \<and> timer (poll_step st (Fulfilled (ex_processing 10))) = Some 2000)"
proof -
  have p: "in_flight ex_started" "\<not> isCancelled ex_started"
          "timer ex_started = None"
    by (simp_all add: ex_polling)
  let ?st = "poll_run ex_started
               (concat (map (\<lambda>m. [Rejected m, TimerFires]) [None, Some ''Failed to fetch'']))"
  have run: "in_flight ?st \<and> \<not> isCancelled ?st \<and> timer ?st = None
          \<and> files ?st = files ex_started
          \<and> activeJobId ?st = activeJobId ex_started
          \<and> navigations ?st = navigations ex_started
          \<and> requests ?st = requests ex_started @ replicate (length [None, Some ''Failed to fetch'']) (job ex_started)"
    using poll_rejection_retries [OF p, of undefined "[None, Some ''Failed to fetch'']" undefined]
    unfolding Let_def by (elim conjE) (intro conjI)
  have q: "in_flight ?st" "\<not> isCancelled ?st" "timer ?st = None"
    using run by simp_all
  have next_tick: "timer (poll_step ?st (Fulfilled (ex_processing 10))) = Some 2000"
    using poll_rejection_retries [OF q, of undefined "[]" "ex_processing 10"]
    by (simp add: ex_processing_def)
  show ?thesis
    using run next_tick unfolding Let_def
    by (simp add: ex_polling ex_task_def)
qed

text \<open>
  Claim C5, as stated, on a rejected status request: the error is shown to the user as
  a notification.
\<close>

theorem poll_rejection_is_surfaced:
  "toasts (poll_step ex_started (Rejected (Some ''Failed to fetch'')))
     = [\<lparr> title = ''Error'', description = ''Failed to fetch'', destructive = True \<rparr>]
   \<and> toasts (poll_step ex_started (Rejected (Some ''Failed to fetch''))) \<noteq> []"
  by (simp add: ex_polling poll_rejected_def or_else_def Let_def)

subsection \<open>Teardown\<close>

lemma poll_step_cancelled:
  assumes "isCancelled st"
  shows "isCancelled (poll_step st e) \<and> files (poll_step st e) = files st
     \<and> activeJobId (poll_step st e) = activeJobId st
     \<and> toasts (poll_step st e) = toasts st
     \<and> navigations (poll_step st e) = navigations st
     \<and> job (poll_step st e) = job st
     \<and> ((timer (poll_step st e) = timer st \<and> requests (poll_step st e) = requests st)
         \<or> (timer st \<noteq> None \<and> timer (poll_step st e) = None
             \<and> requests (poll_step st e) = requests st @ [job st]))"
  using assms
  by (cases e)
     (auto simp: poll_start_def poll_fulfilled_def poll_rejected_def poll_cleanup_def Let_def
           split: option.splits)

lemma poll_run_snoc: "poll_run st (evs @ [e]) = poll_step (poll_run st evs) e"
  by (simp add: poll_run_def)

lemma poll_run_cancelled:
  assumes "isCancelled st"
  shows "isCancelled (poll_run st evs) \<and> files (poll_run st evs) = files st
     \<and> activeJobId (poll_run st evs) = activeJobId st
     \<and> toasts (poll_run st evs) = toasts st
     \<and> navigations (poll_run st evs) = navigations st
     \<and> job (poll_run st evs) = job st
     \<and> ((timer (poll_run st evs) = timer st \<and> requests (poll_run st evs) = requests st)
         \<or> (timer st \<noteq> None \<and> timer (poll_run st evs) = None
             \<and> requests (poll_run st evs) = requests st @ [job st]))"
proof (induction evs rule: rev_induct)
  case Nil
  show ?case using assms by (simp add: poll_run_def)
next
  case (snoc e evs)
  let ?mid = "poll_run st evs"
  have c: "isCancelled ?mid" using snoc by simp
  show ?case
    unfolding poll_run_snoc
    using poll_step_cancelled [OF c, of e] snoc
    by (elim conjE disjE) simp_all
qed

lemma save_step_clean:
  assumes "\<forall>w\<in>set (writes st). \<forall>obj\<in>set (payload w). clean_entry obj"
  shows "\<forall>w\<in>set (writes (save_step st e)). \<forall>obj\<in>set (payload w). clean_entry obj"
  using assms
  by (cases e)
     (auto simp: saveHistory_start_def saveHistory_rejected_def save_cleanup_def Let_def
                 clean_entry_def json_of_item_def json_of_message_def persistable_def
           split: option.splits)

lemma save_run_snoc: "save_run st (evs @ [e]) = save_step (save_run st evs) e"
  by (simp add: save_run_def)

lemma save_run_clean:
  assumes "\<forall>w\<in>set (writes st). \<forall>obj\<in>set (payload w). clean_entry obj"
  shows "\<forall>w\<in>set (writes (save_run st evs)). \<forall>obj\<in>set (payload w). clean_entry obj"
proof (induction evs rule: rev_induct)
  case Nil
  show ?case using assms by (simp add: save_run_def)
next
  case (snoc e evs)
  show ?case unfolding save_run_snoc using snoc by (rule save_step_clean)
qed

lemma save_step_idle:
  "sv_timer st = None \<Longrightarrow> \<not> sv_in_flight st \<Longrightarrow> save_step st e = st"
  by (cases e) (simp_all add: save_cleanup_def)

lemma save_run_idle:
  "sv_timer st = None \<Longrightarrow> \<not> sv_in_flight st \<Longrightarrow> save_run st evs = st"
  unfolding save_run_def by (induction evs) (simp_all add: save_step_idle)

text \<open>
  Claim C4, amended. Once the polling effect has been torn down, nothing that happens
  afterwards changes the task list, the active job, the notifications or the navigation,
  and no new tick is scheduled: a response or an error that resolves after teardown is
  dropped. A tick that was already scheduled at teardown still fires and issues one more
  status request; no request follows it, and none is issued at all when no tick was
  scheduled. The debounced persistence writes to no store when its cleanup runs before
  the debounce timer has fired.
\<close>

theorem teardown_gates_mutation:
  "(let st' = poll_run (poll_step st Teardown) evs
    in files st' = files st \<and> activeJobId st' = activeJobId st
       \<and> toasts st' = toasts st \<and> navigations st' = navigations st
       \<and> (timer st' = None \<or> timer st' = timer st)
       \<and> (requests st' = requests st
           \<or> (timer st \<noteq> None \<and> requests st' = requests st @ [job st])))
   \<and> (timer st = None \<longrightarrow> requests (poll_run (poll_step st Teardown) evs) = requests st)
   \<and> (\<not> sv_in_flight sst \<longrightarrow> writes (save_run (save_step sst Cleanup) sevs) = writes sst)"
proof (intro conjI impI)
  let ?td = "poll_step st Teardown"
  have td: "?td = st\<lparr> isCancelled := True \<rparr>"
    by (simp add: poll_cleanup_def)
  have c: "isCancelled ?td" unfolding td by simp
  note run = poll_run_cancelled [OF c, of evs]
  show "let st' = poll_run ?td evs
    in files st' = files st \<and> activeJobId st' = activeJobId st
       \<and> toasts st' = toasts st \<and> navigations st' = navigations st
       \<and> (timer st' = None \<or> timer st' = timer st)
       \<and> (requests st' = requests st
           \<or> (timer st \<noteq> None \<and> requests st' = requests st @ [job st]))"
    using run unfolding Let_def td by (elim conjE disjE) simp_all
  show "requests (poll_run ?td evs) = requests st" if "timer st = None"
    using run that unfolding td by (elim conjE disjE) simp_all
  show "writes (save_run (save_step sst Cleanup) sevs) = writes sst" if "\<not> sv_in_flight sst"
  proof -
    have "save_run (save_step sst Cleanup) sevs = save_step sst Cleanup"
      using that by (intro save_run_idle) (simp_all add: save_cleanup_def)
    then show ?thesis by (simp add: save_cleanup_def)
  qed
qed

text \<open>
  Teardown while the first status request is in flight, and cleanup of a persistence
  effect whose timer is still pending: no mutation, no further request, no write.
\<close>

theorem teardown_gates_mutation_witness:
  "(\<forall>evs. let st' = poll_run (poll_step ex_started Teardown) evs
          in files st' = [ex_task] \<and> toasts st' = [] \<and> navigations st' = []
             \<and> activeJobId st' = Some ''job-1'' \<and> requests st' = [''job-1''])
   \<and> (\<forall>sevs. writes (save_run (save_step (save_effect ex_save) Cleanup) sevs) = [])"
proof -
  have a: "timer ex_started = None" "files ex_started = [ex_task]" "toasts ex_started = []"
          "navigations ex_started = []" "activeJobId ex_started = Some ''job-1''"
          "requests ex_started = [''job-1'']"
    by (simp_all add: ex_polling)
  have b: "\<not> sv_in_flight (save_effect ex_save)" "writes (save_effect ex_save) = []"
    by (simp_all add: save_effect_def ex_save_def)
  show ?thesis
  proof (intro conjI allI)
    fix evs
    show "let st' = poll_run (poll_step ex_started Teardown) evs
          in files st' = [ex_task] \<and> toasts st' = [] \<and> navigations st' = []
             \<and> activeJobId st' = Some ''job-1'' \<and> requests st' = [''job-1'']"
      using teardown_gates_mutation [of ex_started evs "save_effect ex_save" "[]"] a
      unfolding Let_def by simp
  next
    fix sevs
    show "writes (save_run (save_step (save_effect ex_save) Cleanup) sevs) = []"
      using teardown_gates_mutation [of ex_started "[]" "save_effect ex_save" sevs] b
      by simp
  qed
qed

lemma persistable_ex:
  "\<not> persistable (report_message ''doc-1'' ''## Report'' ''t0'')"
  "\<not> persistable (summary_message ''doc-1'' ex_details ''t0'')"
  "persistable ex_question"
  by code_simp+

lemma ex_save_fired:
  "save_step (save_effect ex_save) DebounceFires =
     ex_save\<lparr> sv_in_flight := True,
              writes := [PrimarySave ''u1'' ''doc-1''
                           [[(''role'', JStr ''user''), (''content'', JStr ''What is the term?'')]]] \<rparr>"
proof -
  have q: "m_role ex_question = User" "m_content ex_question = ''What is the term?''"
    by (simp_all add: ex_question_def)
  show ?thesis
    by (simp add: save_effect_def ex_save_def truthy_def saveHistory_start_def persistable_ex
                  json_of_item_def q Let_def)
qed

text \<open>
  Claim C4, as stated, in two runs. Teardown while a tick is scheduled: the tick fires
  and a second status request is issued. Cleanup of the persistence effect while the
  primary write is in flight: when that write fails, the fallback store is written.
\<close>

theorem teardown_then_late_effects:
  "(let st = poll_step ex_started (Fulfilled (ex_processing 10))
    in timer st = Some 2000 \<and> requests st = [''job-1'']
       \<and> requests (poll_run st [Teardown, TimerFires]) = [''job-1'', ''job-1''])
   \<and> length (writes (save_run (save_effect ex_save) [DebounceFires, Cleanup])) = 1
   \<and> length (writes (save_run (save_effect ex_save) [DebounceFires, Cleanup, SaveRejected])) = 2"
proof -
  have "save_run (save_effect ex_save) [DebounceFires, Cleanup]
          = save_step (save_step (save_effect ex_save) DebounceFires) Cleanup"
       "save_run (save_effect ex_save) [DebounceFires, Cleanup, SaveRejected]
          = save_step (save_step (save_step (save_effect ex_save) DebounceFires) Cleanup) SaveRejected"
    by (simp_all add: save_run_def)
  then have "length (writes (save_run (save_effect ex_save) [DebounceFires, Cleanup])) = 1"
     "length (writes (save_run (save_effect ex_save) [DebounceFires, Cleanup, SaveRejected])) = 2"
    unfolding ex_save_fired
    by (simp_all add: save_cleanup_def saveHistory_rejected_def ex_save_def)
  moreover have "let st = poll_step ex_started (Fulfilled (ex_processing 10))
    in timer st = Some 2000 \<and> requests st = [''job-1'']
       \<and> requests (poll_run st [Teardown, TimerFires]) = [''job-1'', ''job-1'']"
    by (simp add: ex_polling poll_fulfilled_def ex_processing_def Let_def poll_run_def
                  poll_cleanup_def poll_start_def)
  ultimately show ?thesis by simp
qed

subsection \<open>Persistence\<close>

text \<open>
  Claim C6, amended. The effect persists nothing unless a user id and a document id are
  present and the transcript holds more than two messages. Otherwise it arms a 2000 ms
  timer; when the timer fires, the messages that are neither reports nor contain the
  summary marker phrase are sent, as role and content only, to the primary store,
  provided at least one is left; when that write fails, the same messages are written
  to the local fallback under the key of the document, with all their fields. No payload
  written to either store holds a report entry or an entry whose content contains the
  marker phrase.
\<close>

theorem saveHistory_persists_filtered:
  "(sv_timer st = None \<and> \<not> sv_in_flight st
      \<and> (\<not> truthy (sv_userId st) \<or> \<not> truthy (sv_documentId st)
           \<or> length (sv_messages st) \<le> 2)
      \<longrightarrow> writes (save_run (save_effect st) evs) = writes st)
   \<and> (sv_userId st = Some userId \<and> userId \<noteq> []
        \<and> sv_documentId st = Some documentId \<and> documentId \<noteq> []
        \<and> length (sv_messages st) > 2
      \<longrightarrow> sv_timer (save_effect st) = Some 2000
          \<and> (let kept = filter persistable (sv_messages st);
                  fired = save_step (save_effect st) DebounceFires
              in writes fired = writes st @
                   (if kept = [] then []
                    else [PrimarySave userId documentId
                            (map (\<lambda>m. [(''role'', JStr (role_str (m_role m))),
                                       (''content'', JStr (m_content m))]) kept)])
                 \<and> (kept \<noteq> [] \<longrightarrow>
                      writes (save_step fired SaveRejected) = writes fired @
                        [LocalSet (''chat_'' @ documentId) (map json_of_message kept)])))
   \<and> ((\<forall>w\<in>set (writes st). \<forall>obj\<in>set (payload w). clean_entry obj)
      \<longrightarrow> (\<forall>w\<in>set (writes (save_run (save_effect st) evs)).
             \<forall>obj\<in>set (payload w). clean_entry obj))"
proof (intro conjI impI)
  assume a: "sv_timer st = None \<and> \<not> sv_in_flight st
      \<and> (\<not> truthy (sv_userId st) \<or> \<not> truthy (sv_documentId st)
           \<or> length (sv_messages st) \<le> 2)"
  then have "save_effect st = st"
    by (auto simp: save_effect_def)
  then show "writes (save_run (save_effect st) evs) = writes st"
    using a by (simp add: save_run_idle)
next
  assume a: "sv_userId st = Some userId \<and> userId \<noteq> []
        \<and> sv_documentId st = Some documentId \<and> documentId \<noteq> []
        \<and> length (sv_messages st) > 2"
  then have eff: "save_effect st = st\<lparr> sv_timer := Some 2000 \<rparr>"
    by (simp add: save_effect_def truthy_def)
  show "sv_timer (save_effect st) = Some 2000"
    by (simp add: eff)
  let ?kept = "filter persistable (sv_messages st)"
  let ?fired = "save_step (st\<lparr> sv_timer := Some 2000 \<rparr>) DebounceFires"
  have fired: "?fired = (if ?kept = [] then st\<lparr> sv_timer := None \<rparr>
       else st\<lparr> sv_timer := None,
               writes := writes st @
                 [PrimarySave userId documentId
                    (map (\<lambda>m. [(''role'', JStr (role_str (m_role m))),
                               (''content'', JStr (m_content m))]) ?kept)],
               sv_in_flight := True \<rparr>)"
    using a by (simp add: saveHistory_start_def Let_def json_of_item_def comp_def)
  have w: "writes ?fired = writes st @
                   (if ?kept = [] then []
                    else [PrimarySave userId documentId
                            (map (\<lambda>m. [(''role'', JStr (role_str (m_role m))),
                                       (''content'', JStr (m_content m))]) ?kept)])"
    unfolding fired by simp
  have r: "writes (save_step ?fired SaveRejected) = writes ?fired @
             [LocalSet (''chat_'' @ documentId) (map json_of_message ?kept)]"
    if "?kept \<noteq> []"
    unfolding fired using that a by (simp add: saveHistory_rejected_def)
  show "let kept = filter persistable (sv_messages st);
            fired = save_step (save_effect st) DebounceFires
        in writes fired = writes st @
             (if kept = [] then []
              else [PrimarySave userId documentId
                      (map (\<lambda>m. [(''role'', JStr (role_str (m_role m))),
                                 (''content'', JStr (m_content m))]) kept)])
           \<and> (kept \<noteq> [] \<longrightarrow>
                writes (save_step fired SaveRejected) = writes fired @
                  [LocalSet (''chat_'' @ documentId) (map json_of_message kept)])"
    unfolding Let_def eff using w r by blast
next
  assume "\<forall>w\<in>set (writes st). \<forall>obj\<in>set (payload w). clean_entry obj"
  then have "\<forall>w\<in>set (writes (save_effect st)). \<forall>obj\<in>set (payload w). clean_entry obj"
    by (simp add: save_effect_def)
  then show "\<forall>w\<in>set (writes (save_run (save_effect st) evs)).
             \<forall>obj\<in>set (payload w). clean_entry obj"
    by (rule save_run_clean)
qed

lemma ex_save_facts:
  "sv_userId ex_save = Some ''u1''" "sv_documentId ex_save = Some ''doc-1''"
  "length (sv_messages ex_save) > 2" "writes ex_save = []"
  "filter persistable (sv_messages ex_save) = [ex_question]"
  by (simp_all add: ex_save_def persistable_ex)

text \<open>
  A transcript of report, summary and one question: the question alone is persisted.
\<close>

theorem saveHistory_persists_filtered_witness:
  "sv_timer (save_effect ex_save) = Some 2000
   \<and> writes (save_step (save_effect ex_save) DebounceFires)
       = [PrimarySave ''u1'' ''doc-1''
            [[(''role'', JStr ''user''), (''content'', JStr ''What is the term?'')]]]
   \<and> writes (save_step (save_step (save_effect ex_save) DebounceFires) SaveRejected)
       = [PrimarySave ''u1'' ''doc-1''
            [[(''role'', JStr ''user''), (''content'', JStr ''What is the term?'')]],
          LocalSet ''chat_doc-1'' [json_of_message ex_question]]"
proof -
  have q: "m_role ex_question = User" "m_content ex_question = ''What is the term?''"
    by (simp_all add: ex_question_def)
  have prem: "sv_userId ex_save = Some ''u1'' \<and> ''u1'' \<noteq> []
        \<and> sv_documentId ex_save = Some ''doc-1'' \<and> ''doc-1'' \<noteq> []
        \<and> length (sv_messages ex_save) > 2"
    by (simp add: ex_save_facts)
  note inst = saveHistory_persists_filtered [of ex_save "[]" "''u1''" "''doc-1''"]
  from inst prem show ?thesis
    unfolding Let_def ex_save_facts
    by (simp add: q del: save_step.simps)
qed

text \<open>
  Claim C6, as stated, on the fallback write: its entries keep id and timestamp, so the
  payload differs from the role-and-content projection sent to the primary store.
\<close>

theorem fallback_payload_keeps_all_fields:
  "(let st = save_step (save_step (save_effect ex_save) DebounceFires) SaveRejected
    in map payload (writes st)
         = [[[(''role'', JStr ''user''), (''content'', JStr ''What is the term?'')]],
            [[(''id'', JStr ''1700000000500''), (''role'', JStr ''user''),
              (''content'', JStr ''What is the term?''), (''timestamp'', JStr ''t1'')]]]
       \<and> payload (writes st ! 1) \<noteq> payload (writes st ! 0))"
proof -
  have j: "json_of_message ex_question
             = [(''id'', JStr ''1700000000500''), (''role'', JStr ''user''),
                (''content'', JStr ''What is the term?''), (''timestamp'', JStr ''t1'')]"
    by (simp add: json_of_message_def ex_question_def)
  have "writes (save_step (save_step (save_effect ex_save) DebounceFires) SaveRejected)
          = [PrimarySave ''u1'' ''doc-1''
               [[(''role'', JStr ''user''), (''content'', JStr ''What is the term?'')]],
             LocalSet ''chat_doc-1'' [json_of_message ex_question]]"
    unfolding ex_save_fired by (simp add: saveHistory_rejected_def ex_save_facts)
  then show ?thesis
    unfolding Let_def by (simp add: j)
qed

subsection \<open>Initial load\<close>

text \<open>
  When the history request fails, or returns at least one entry, the transcript starts
  with the report and the summary.
\<close>

lemma load_with_history:
  assumes "in_details inp = Inr details" "in_report inp = Inr report"
          "in_suggestions inp = Inr suggestions" "truthy (in_user inp)"
          "in_history inp = Inl e \<or> (\<exists>h. in_history inp = Inr h \<and> h \<noteq> [])"
  shows "\<exists>rest. messages (load documentId inp st) =
           report_message documentId report (in_now inp)
           # summary_message documentId details (in_now inp) # rest"
  using assms
  by (auto simp: load_def Let_def split: sum.splits local_entry.splits)

text \<open>
  Claim C2 on the code. Every bootstrap request succeeds. When the primary store
  answers with an empty history, or when no user is signed in, \<open>load\<close> finishes with
  the transcript still empty: neither synthetic message is shown. When the primary store
  fails instead, the transcript is the report followed by the summary.
\<close>

theorem load_without_history_leaves_transcript_empty:
  "(let st = load ''doc-1'' ex_inputs initial_chat
    in messages st = [] \<and> \<not> loadingInitial st \<and> chat_toasts st = [])
   \<and> (let st = load ''doc-1'' (ex_inputs\<lparr> in_user := None \<rparr>) initial_chat
      in messages st = [] \<and> \<not> loadingInitial st \<and> chat_toasts st = [])
   \<and> messages (load ''doc-1'' (ex_inputs\<lparr> in_history := Inl None \<rparr>) initial_chat)
       = [report_message ''doc-1'' ''## Report'' ''t0'',
          summary_message ''doc-1'' ex_details ''t0'']"
  by (simp add: load_def ex_inputs_def initial_chat_def truthy_def Let_def)

subsection \<open>Enqueueing\<close>

lemma split_on_nonempty: "split_on sep s \<noteq> []"
  by (induction s) (auto split: list.splits)

lemma validateFile_None:
  "validateFile file = None \<longleftrightarrow>
     file_ext file = ''.pdf'' \<and> f_size file \<le> 20 * 1024 * 1024"
  by (auto simp: validateFile_def SUPPORTED_FORMATS_def MAX_FILE_SIZE_def)

lemma new_task_fields:
  "uf_file (new_task now file) = file"
  "uf_status (new_task now file) =
     (if file_ext file \<noteq> ''.pdf'' \<or> f_size file > 20 * 1024 * 1024 then Failed else Pending)"
  "uf_error (new_task now file) = validateFile file"
  "uf_id (new_task now file) = string_of_nat now @ ''-'' @ f_name file"
  by (simp_all add: new_task_def Let_def validateFile_def SUPPORTED_FORMATS_def
                    MAX_FILE_SIZE_def)

lemma addFiles_new_part:
  "drop (length prev) (addFiles clock newFiles prev)
     = map (\<lambda>(i, file). new_task (clock i) file) (enumerate 0 newFiles)"
  by (simp add: addFiles_def)

lemma map_uf_file_new:
  "map uf_file (map (\<lambda>(i, file). new_task (clock i) file) (enumerate n fs)) = fs"
  by (induction fs arbitrary: n) (simp_all add: new_task_fields)

text \<open>
  \<open>addFiles\<close> appends one task per file in input order; a task is created in error
  exactly when the extension is not \<open>.pdf\<close> or the size exceeds 20 MiB, and pending
  otherwise.
\<close>

lemma addFiles_tasks:
  "length (addFiles clock newFiles prev) = length prev + length newFiles
   \<and> take (length prev) (addFiles clock newFiles prev) = prev
   \<and> map uf_file (drop (length prev) (addFiles clock newFiles prev)) = newFiles
   \<and> (\<forall>t \<in> set (drop (length prev) (addFiles clock newFiles prev)).
         (uf_status t = Failed \<longleftrightarrow>
            file_ext (uf_file t) \<noteq> ''.pdf'' \<or> f_size (uf_file t) > 20 * 1024 * 1024)
         \<and> (uf_status t = Pending \<longleftrightarrow>
            \<not> (file_ext (uf_file t) \<noteq> ''.pdf'' \<or> f_size (uf_file t) > 20 * 1024 * 1024))
         \<and> (uf_error t \<noteq> None \<longleftrightarrow> uf_status t = Failed))"
proof (intro conjI ballI)
  show "length (addFiles clock newFiles prev) = length prev + length newFiles"
    by (simp add: addFiles_def)
  show "take (length prev) (addFiles clock newFiles prev) = prev"
    by (simp add: addFiles_def)
  show "map uf_file (drop (length prev) (addFiles clock newFiles prev)) = newFiles"
    unfolding addFiles_new_part by (rule map_uf_file_new)
  fix t
  assume "t \<in> set (drop (length prev) (addFiles clock newFiles prev))"
  then obtain now f where t: "t = new_task now f"
    unfolding addFiles_new_part by auto
  show "uf_status t = Failed \<longleftrightarrow>
            file_ext (uf_file t) \<noteq> ''.pdf'' \<or> f_size (uf_file t) > 20 * 1024 * 1024"
    unfolding t new_task_fields by simp
  show "uf_status t = Pending \<longleftrightarrow>
            \<not> (file_ext (uf_file t) \<noteq> ''.pdf'' \<or> f_size (uf_file t) > 20 * 1024 * 1024)"
    unfolding t new_task_fields by simp
  show "uf_error t \<noteq> None \<longleftrightarrow> uf_status t = Failed"
    unfolding t new_task_fields using validateFile_None [of f] by auto
qed

lemma validateFile_boundary:
  "validateFile \<lparr> f_name = ''contract.PDF'', f_size = 20 * 1024 * 1024 \<rparr> = None"
  "validateFile \<lparr> f_name = ''contract.PDF'', f_size = 20 * 1024 * 1024 + 1 \<rparr>
     = Some ''File too large. Maximum size is 20MB''"
  "validateFile \<lparr> f_name = ''notes.pdf.txt'', f_size = 10 \<rparr>
     = Some ''Unsupported format. Please use .pdf''"
  by (simp_all add: validateFile_def file_ext_def SUPPORTED_FORMATS_def MAX_FILE_SIZE_def
                    toLowerCase_def toLowerCase_char_def lower_letters_def upper_letters_def)

text \<open>
  Claim C7 on the code. Two valid files of the same name, enqueued in one batch within
  the same millisecond, become two pending tasks with the same id.
\<close>

theorem addFiles_same_name_same_id:
  "map uf_id (addFiles ex_clock ex_batch [])
     = [''1700000000000-nda.pdf'', ''1700000000000-nda.pdf'']
   \<and> map uf_status (addFiles ex_clock ex_batch []) = [Pending, Pending]
   \<and> \<not> distinct (map uf_id (addFiles ex_clock ex_batch []))"
proof -
  have n: "string_of_nat 1700000000000 = ''1700000000000''"
    by (simp add: string_of_nat.simps digit_char_def)
  have v: "validateFile \<lparr> f_name = ''nda.pdf'', f_size = 1024 \<rparr> = None"
          "validateFile \<lparr> f_name = ''nda.pdf'', f_size = 2048 \<rparr> = None"
    by (simp_all add: validateFile_def file_ext_def SUPPORTED_FORMATS_def MAX_FILE_SIZE_def
                    toLowerCase_def toLowerCase_char_def lower_letters_def upper_letters_def)
  show ?thesis
    by (simp add: addFiles_def ex_batch_def ex_clock_def new_task_def n v)
qed

subsection \<open>Fenced code\<close>

lemma render_line_open:
  "\<not> inCode st \<Longrightarrow> startsWith (trim line) fence \<Longrightarrow>
     render_line st line = st\<lparr> inCode := True \<rparr>"
  by (simp add: render_line_def)

lemma render_line_close:
  "inCode st \<Longrightarrow> startsWith (trim line) fence \<Longrightarrow>
     render_line st line =
       (if codeBuffer st = [] then st\<lparr> inCode := False \<rparr>
        else st\<lparr> elements := elements st @ [CodeBlock (join newline (codeBuffer st))],
                codeBuffer := [], inCode := False \<rparr>)"
  by (simp add: render_line_def flushCode_def push_def)

lemma render_line_buffer:
  "inCode st \<Longrightarrow> \<not> startsWith (trim line) fence \<Longrightarrow>
     render_line st line = st\<lparr> codeBuffer := codeBuffer st @ [line] \<rparr>"
  by (simp add: render_line_def)

lemma render_lines_buffer:
  "inCode st \<Longrightarrow> \<forall>l\<in>set body. \<not> startsWith (trim l) fence \<Longrightarrow>
     foldl render_line st body = st\<lparr> codeBuffer := codeBuffer st @ body \<rparr>"
proof (induction body arbitrary: st)
  case Nil
  then show ?case by simp
next
  case (Cons l body)
  have "foldl render_line st (l # body)
          = foldl render_line (st\<lparr> codeBuffer := codeBuffer st @ [l] \<rparr>) body"
    using Cons.prems by (simp add: render_line_buffer)
  also have "\<dots> = st\<lparr> codeBuffer := codeBuffer st @ l # body \<rparr>"
    using Cons.prems by (subst Cons.IH) simp_all
  finally show ?case .
qed

lemma render_line_inCode:
  "inCode (render_line st line) = (if startsWith (trim line) fence then \<not> inCode st else inCode st)"
  by (simp add: render_line_def flushCode_def push_def Let_def
           split: prod.splits option.splits)

text \<open>
  Claim C9, amended. The fence is toggled exactly by the lines whose trimmed content
  starts with three backticks; no other line changes it. From a state outside code, an
  opening fence, lines without a fence and a closing fence leave the renderer outside
  code with one code block appended that holds exactly those lines joined by newlines
  (no block when there was no line between the fences). When the input ends before a
  closing fence, the final flush appends the same block for the lines buffered so far.
\<close>

theorem fenced_code_blocks:
  "inCode (render_line st line)
     = (if startsWith (trim line) fence then \<not> inCode st else inCode st)
   \<and> (\<not> inCode st \<and> codeBuffer st = []
       \<and> startsWith (trim opening) fence \<and> startsWith (trim closing) fence
       \<and> (\<forall>l\<in>set body. \<not> startsWith (trim l) fence)
      \<longrightarrow> foldl render_line st (opening # body @ [closing])
            = (if body = [] then st\<lparr> inCode := False \<rparr>
               else st\<lparr> elements := elements st @ [CodeBlock (join newline body)],
                       codeBuffer := [], inCode := False \<rparr>)
          \<and> finish (foldl render_line st (opening # body))
            = (if body = [] then elements st
               else elements st @ [CodeBlock (join newline body)]))"
proof (intro conjI impI)
  show "inCode (render_line st line)
     = (if startsWith (trim line) fence then \<not> inCode st else inCode st)"
    by (rule render_line_inCode)
next
  assume a: "\<not> inCode st \<and> codeBuffer st = []
       \<and> startsWith (trim opening) fence \<and> startsWith (trim closing) fence
       \<and> (\<forall>l\<in>set body. \<not> startsWith (trim l) fence)"
  have inside: "foldl render_line st (opening # body)
                  = st\<lparr> inCode := True, codeBuffer := body \<rparr>"
    using a by (simp add: render_line_open render_lines_buffer)
  show "foldl render_line st (opening # body @ [closing])
            = (if body = [] then st\<lparr> inCode := False \<rparr>
               else st\<lparr> elements := elements st @ [CodeBlock (join newline body)],
                       codeBuffer := [], inCode := False \<rparr>)"
  proof -
    have "foldl render_line st (opening # body @ [closing])
            = render_line (foldl render_line st (opening # body)) closing"
      by simp
    also have "\<dots> = render_line (st\<lparr> inCode := True, codeBuffer := body \<rparr>) closing"
      by (simp only: inside)
    also have "\<dots> = (if body = [] then st\<lparr> inCode := False \<rparr>
               else st\<lparr> elements := elements st @ [CodeBlock (join newline body)],
                       codeBuffer := [], inCode := False \<rparr>)"
      using a by (simp add: render_line_close)
    finally show ?thesis .
  qed
  show "finish (foldl render_line st (opening # body))
            = (if body = [] then elements st
               else elements st @ [CodeBlock (join newline body)])"
    unfolding inside by (simp add: finish_def flushCode_def)
qed

text \<open>The rendering example of the specification, block by block.\<close>

lemma RichText_example:
  "RichText ex_markdown =
     [Heading 1 ''Title'', Spacer, Paragraph ''Some *italic* and **bold** text'',
      Bullet ''item one'', Bullet ''item two'', CodeBlock ''code here'']"
  by (simp add: RichText_def ex_markdown_def newline_def fence_def initial_rich_def
                render_line_def finish_def flushCode_def push_def startsWith_def trim_def
                is_space_def numbered_test_def is_digit_def Let_def)

text \<open>Two lines between fences, closed and unterminated.\<close>

theorem fenced_code_blocks_witness:
  "foldl render_line initial_rich [fence, ''code here'', ''  more'', fence]
     = initial_rich\<lparr> elements := [CodeBlock (''code here'' @ newline @ ''  more'')],
                     codeBuffer := [], inCode := False \<rparr>
   \<and> finish (foldl render_line initial_rich [fence, ''code here'', ''  more''])
     = [CodeBlock (''code here'' @ newline @ ''  more'')]"
proof -
  have p: "\<not> inCode initial_rich \<and> codeBuffer initial_rich = []
       \<and> startsWith (trim fence) fence \<and> startsWith (trim fence) fence
       \<and> (\<forall>l\<in>set [''code here'', ''  more'']. \<not> startsWith (trim l) fence)"
    by (simp add: initial_rich_def fence_def startsWith_def trim_def is_space_def)
  have e: "elements initial_rich = []"
    by (simp add: initial_rich_def)
  show ?thesis
    using fenced_code_blocks [of initial_rich fence fence fence "[''code here'', ''  more'']"] p
    by (simp add: e)
qed

text \<open>
  Claim C9, as stated, on a fence with a language tag: the line is not exactly three
  backticks after trimming, yet it opens the code span.
\<close>

theorem tagged_fence_toggles:
  "RichText ex_tagged_fence = [CodeBlock ''x''] \<and> trim (fence @ ''js'') \<noteq> fence"
  by (simp add: RichText_def ex_tagged_fence_def newline_def fence_def initial_rich_def
                render_line_def finish_def flushCode_def push_def startsWith_def trim_def
                is_space_def Let_def)

end
